theory Spec2Isabelle
  imports Main
begin

section \<open>Listing records\<close>

text \<open>
  The scraper passes listings around as dictionaries with a fixed set of thirteen keys,
  created in one place (the last statement of \<open>parse_listing_text\<close>). The two counts are
  Python integers, every other entry is a string. The record below has one field per key,
  under the key's own name.
\<close>

record listing =
  address :: string
  price :: string
  beds :: int
  units :: int
  sqft :: string
  property_type :: string
  cap_rate :: string
  broker_name :: string
  broker_phone :: string
  broker_email :: string
  broker_company :: string
  listing_url :: string
  state :: string

section \<open>Configuration\<close>

definition MIN_BEDS :: int where
  "MIN_BEDS = 50"

definition MIN_UNITS :: int where
  "MIN_UNITS = 40"

section \<open>Size filter\<close>

text \<open>
  \<open>meets_criteria\<close> reads both counts (\<open>lst.get("beds", 0) or 0\<close> is the field itself on
  an integer) and accepts a listing with no count at all, or with one count at its
  threshold.
\<close>

definition meets_criteria :: "listing \<Rightarrow> bool" where
  "meets_criteria lst =
     (let b = beds lst; u = units lst
      in if b = 0 \<and> u = 0 then True else b \<ge> MIN_BEDS \<or> u \<ge> MIN_UNITS)"

text \<open>
  The end of \<open>main\<close>: the comprehension over \<open>meets_criteria\<close>, then the loop that skips
  (\<open>continue\<close>) a listing whose two counts are both positive and both under their
  thresholds, and appends every other one to \<open>final\<close>.
\<close>

fun final_loop :: "listing list \<Rightarrow> listing list \<Rightarrow> listing list" where
  "final_loop final [] = final"
| "final_loop final (l # ls) =
     (let b = beds l; u = units l
      in if b > 0 \<and> b < MIN_BEDS \<and> u > 0 \<and> u < MIN_UNITS
         then final_loop final ls
         else final_loop (final @ [l]) ls)"

definition size_filter :: "listing list \<Rightarrow> listing list" where
  "size_filter all_listings = final_loop [] (filter meets_criteria all_listings)"

text \<open>Listings used to run the definitions on concrete input: only the counts are set.\<close>

definition sized_listing :: "int \<Rightarrow> int \<Rightarrow> listing" where
  "sized_listing b u =
     \<lparr>address = [], price = [], beds = b, units = u, sqft = [], property_type = [],
      cap_rate = [], broker_name = [], broker_phone = [], broker_email = [],
      broker_company = [], listing_url = [], state = []\<rparr>"

section \<open>Detail enrichment\<close>

text \<open>
  \<open>scrape_detail_page\<close> returns the dictionary \<open>info\<close>, with ten keys in this order; what
  it holds depends on the browser. \<open>main\<close> then runs, for every key \<open>k\<close> of it,
  \<open>if detail[k] and not lst.get(k): lst[k] = detail[k]\<close>.
\<close>

record detail =
  info_broker_name :: string
  info_broker_phone :: string
  info_broker_email :: string
  info_broker_company :: string
  info_beds :: int
  info_units :: int
  info_sqft :: string
  info_address :: string
  info_cap_rate :: string
  info_property_type :: string

text \<open>
  One turn of that loop, on a string entry and on an integer entry: the new value of
  \<open>lst[k]\<close>, from its current value and \<open>detail[k]\<close>. A string is true when it is not
  empty, an integer when it is not zero.
\<close>

definition fill_str :: "string \<Rightarrow> string \<Rightarrow> string" where
  "fill_str cur new = (if new \<noteq> [] \<and> \<not> (cur \<noteq> []) then new else cur)"

definition fill_int :: "int \<Rightarrow> int \<Rightarrow> int" where
  "fill_int cur new = (if new \<noteq> 0 \<and> \<not> (cur \<noteq> 0) then new else cur)"

definition apply_detail :: "listing \<Rightarrow> detail \<Rightarrow> listing" where
  "apply_detail lst d =
     lst\<lparr>broker_name := fill_str (broker_name lst) (info_broker_name d),
         broker_phone := fill_str (broker_phone lst) (info_broker_phone d),
         broker_email := fill_str (broker_email lst) (info_broker_email d),
         broker_company := fill_str (broker_company lst) (info_broker_company d),
         beds := fill_int (beds lst) (info_beds d),
         units := fill_int (units lst) (info_units d),
         sqft := fill_str (sqft lst) (info_sqft d),
         address := fill_str (address lst) (info_address d),
         cap_rate := fill_str (cap_rate lst) (info_cap_rate d),
         property_type := fill_str (property_type lst) (info_property_type d)\<rparr>"

text \<open>
  The body of the enrichment loop of \<open>main\<close> for one listing: a listing without a URL and
  a listing that already has a broker phone, email and name are left alone
  (\<open>continue\<close>); \<open>d\<close> is what \<open>scrape_detail_page\<close> returned for the listing's URL.
\<close>

definition enrich_one :: "listing \<Rightarrow> detail \<Rightarrow> listing" where
  "enrich_one lst d =
     (if listing_url lst = [] then lst
      else if broker_phone lst \<noteq> [] \<and> broker_email lst \<noteq> [] \<and> broker_name lst \<noteq> [] then lst
      else apply_detail lst d)"


section \<open>Text\<close>

text \<open>
  A Python string is a sequence of code points. Text is modelled as a list of HOL
  characters, each read as the code point of the same number (0 to 255, the Latin-1 range
  of Unicode); \<open>ord\<close> is that number. The classes below are Python's own on this range:
  \<open>str.isspace\<close> (also the regular expression class \<open>\s\<close> and what \<open>str.strip\<close>
  removes), the decimal digits (the class \<open>\d\<close>), the word characters (the class
  \<open>\w\<close>, which decides \<open>\b\<close>) and \<open>str.lower\<close>.
\<close>

definition ord :: "char \<Rightarrow> nat" where
  "ord c = of_char c"

definition py_isspace :: "char \<Rightarrow> bool" where
  "py_isspace c =
     (let n = ord c
      in (9 \<le> n \<and> n \<le> 13) \<or> (28 \<le> n \<and> n \<le> 32) \<or> n = 133 \<or> n = 160)"

definition py_isdecimal :: "char \<Rightarrow> bool" where
  "py_isdecimal c = (let n = ord c in 48 \<le> n \<and> n \<le> 57)"

definition py_isword :: "char \<Rightarrow> bool" where
  "py_isword c =
     (let n = ord c
      in (48 \<le> n \<and> n \<le> 57) \<or> (65 \<le> n \<and> n \<le> 90) \<or> n = 95 \<or> (97 \<le> n \<and> n \<le> 122) \<or>
         n = 170 \<or> n = 178 \<or> n = 179 \<or> n = 181 \<or> n = 185 \<or> n = 186 \<or>
         (188 \<le> n \<and> n \<le> 190) \<or> (192 \<le> n \<and> n \<noteq> 215 \<and> n \<noteq> 247))"

definition lower_char :: "char \<Rightarrow> char" where
  "lower_char c =
     (let n = ord c
      in if (65 \<le> n \<and> n \<le> 90) \<or> (192 \<le> n \<and> n \<le> 222 \<and> n \<noteq> 215)
         then char_of (n + 32) else c)"

definition py_lower :: "string \<Rightarrow> string" where
  "py_lower s = map lower_char s"

definition py_strip :: "string \<Rightarrow> string" where
  "py_strip s = rev (dropWhile py_isspace (rev (dropWhile py_isspace s)))"

text \<open>\<open>a or b\<close> on two strings: the first one unless it is empty.\<close>

definition py_or :: "string \<Rightarrow> string \<Rightarrow> string" where
  "py_or a b = (if a \<noteq> [] then a else b)"

section \<open>Removing duplicates\<close>

text \<open>
  \<open>dedupe\<close> computes, for each listing,
  \<open>l.get("listing_url", "") or l.get("address", "").strip().lower() or l.get("price", "")\<close>
  and keeps the listing when that key is not empty and not yet in the set \<open>seen\<close>.
\<close>

definition natural_key :: "listing \<Rightarrow> string" where
  "natural_key l = py_or (listing_url l) (py_or (py_lower (py_strip (address l))) (price l))"

fun dedupe_loop :: "string set \<Rightarrow> listing list \<Rightarrow> listing list \<Rightarrow> listing list" where
  "dedupe_loop seen out [] = out"
| "dedupe_loop seen out (l # ls) =
     (let key = natural_key l
      in if key \<noteq> [] \<and> key \<notin> seen
         then dedupe_loop (insert key seen) (out @ [l]) ls
         else dedupe_loop seen out ls)"

definition dedupe :: "listing list \<Rightarrow> listing list" where
  "dedupe listings = dedupe_loop {} [] listings"

text \<open>
  The last loop of \<open>scrape_search_page\<close>, over the listings parsed from one page: its key
  is \<open>l.get("listing_url") or l.get("address", "")\<close>.
\<close>

definition page_key :: "listing \<Rightarrow> string" where
  "page_key l = py_or (listing_url l) (address l)"

fun unique_loop :: "string set \<Rightarrow> listing list \<Rightarrow> listing list \<Rightarrow> listing list" where
  "unique_loop seen_urls unique [] = unique"
| "unique_loop seen_urls unique (l # ls) =
     (let key = page_key l
      in if key \<noteq> [] \<and> key \<notin> seen_urls
         then unique_loop (insert key seen_urls) (unique @ [l]) ls
         else unique_loop seen_urls unique ls)"

definition unique_listings :: "listing list \<Rightarrow> listing list" where
  "unique_listings listings = unique_loop {} [] listings"

text \<open>
  Both loops are instances of one scheme, used in the proofs: walk the list with the set
  of keys seen so far and keep an element whose key is not empty and not in the set.
\<close>

fun keep_unseen :: "('a \<Rightarrow> string) \<Rightarrow> string set \<Rightarrow> 'a list \<Rightarrow> 'a list" where
  "keep_unseen key seen [] = []"
| "keep_unseen key seen (x # xs) =
     (if key x \<noteq> [] \<and> key x \<notin> seen
      then x # keep_unseen key (insert (key x) seen) xs
      else keep_unseen key seen xs)"

text \<open>Listings used to run the two loops: a URL, an address and a price on a blank listing.\<close>

definition keyed_listing :: "string \<Rightarrow> string \<Rightarrow> string \<Rightarrow> listing" where
  "keyed_listing url addr pr = (sized_listing 60 0)\<lparr>address := addr, price := pr, listing_url := url\<rparr>"

text \<open>\<open>sub in s\<close> on strings, \<open>str.split\<close> on one character and \<open>str.replace\<close> of one character.\<close>

fun startswith :: "string \<Rightarrow> string \<Rightarrow> bool" where
  "startswith s [] = True"
| "startswith [] (p # ps) = False"
| "startswith (c # cs) (p # ps) = (c = p \<and> startswith cs ps)"

fun py_in :: "string \<Rightarrow> string \<Rightarrow> bool" where
  "py_in sub [] = (sub = [])"
| "py_in sub (c # cs) = (startswith (c # cs) sub \<or> py_in sub cs)"

fun split_on :: "char \<Rightarrow> string \<Rightarrow> string list" where
  "split_on d [] = [[]]"
| "split_on d (c # cs) =
     (if c = d then [] # split_on d cs
      else (case split_on d cs of w # ws \<Rightarrow> (c # w) # ws | [] \<Rightarrow> [[c]]))"

definition replace_char :: "char \<Rightarrow> char \<Rightarrow> string \<Rightarrow> string" where
  "replace_char old new s = map (\<lambda>c. if c = old then new else c) s"

text \<open>
  \<open>int(m.group(1))\<close> is only ever applied to a run of decimal digits, where it is the
  number the digits write. (The interpreter's configurable limit on the length of such a
  run is not part of the model.)
\<close>

definition py_int :: "string \<Rightarrow> int" where
  "py_int s = foldl (\<lambda>n c. 10 * n + (int (ord c) - 48)) 0 s"

section \<open>Pattern library\<close>

text \<open>
  The patterns of the source use character classes, literals, \<open>*\<close>, \<open>+\<close>, \<open>?\<close> and counted
  repetition of a single class, alternation, \<open>$\<close> and \<open>\b\<close>. \<open>rmatch r (p, s)\<close> matches
  \<open>r\<close> at the start of the remaining text \<open>s\<close>, where \<open>p\<close> is the character before it, and
  returns every way to match as the position after the match, in the order in which
  Python's backtracking matcher tries them: a greedy repetition takes as many characters
  as it can first, an alternation tries its left branch first.
\<close>

type_synonym pos = "char option \<times> string"

datatype regex =
    Eps
  | One "char \<Rightarrow> bool"
  | Star "char \<Rightarrow> bool"
  | Seq regex regex
  | Alt regex regex
  | Eol
  | WordB

fun star_greedy :: "(char \<Rightarrow> bool) \<Rightarrow> char option \<Rightarrow> string \<Rightarrow> pos list" where
  "star_greedy cls p [] = [(p, [])]"
| "star_greedy cls p (c # cs) =
     (if cls c then star_greedy cls (Some c) cs else []) @ [(p, c # cs)]"

text \<open>\<open>\b\<close>: exactly one of the characters before and after the position is a word character.\<close>

definition at_boundary :: "char option \<Rightarrow> string \<Rightarrow> bool" where
  "at_boundary p s =
     ((case p of None \<Rightarrow> False | Some c \<Rightarrow> py_isword c) \<noteq>
      (case s of [] \<Rightarrow> False | c # _ \<Rightarrow> py_isword c))"

text \<open>\<open>$\<close> without the multi-line flag: the end of the text, or just before a final newline.\<close>

fun rmatch :: "regex \<Rightarrow> pos \<Rightarrow> pos list" where
  "rmatch Eps q = [q]"
| "rmatch (One cls) (p, s) =
     (case s of [] \<Rightarrow> [] | c # cs \<Rightarrow> if cls c then [(Some c, cs)] else [])"
| "rmatch (Star cls) (p, s) = star_greedy cls p s"
| "rmatch (Seq a b) q = concat (map (rmatch b) (rmatch a q))"
| "rmatch (Alt a b) q = rmatch a q @ rmatch b q"
| "rmatch Eol (p, s) = (if s = [] \<or> s = [CHR 0x0A] then [(p, s)] else [])"
| "rmatch WordB (p, s) = (if at_boundary p s then [(p, s)] else [])"

definition Plus :: "(char \<Rightarrow> bool) \<Rightarrow> regex" where
  "Plus cls = Seq (One cls) (Star cls)"

definition Opt :: "(char \<Rightarrow> bool) \<Rightarrow> regex" where
  "Opt cls = Alt (One cls) Eps"

fun seqs :: "regex list \<Rightarrow> regex" where
  "seqs [] = Eps"
| "seqs (r # rs) = Seq r (seqs rs)"

text \<open>
  A literal, as written and under \<open>re.IGNORECASE\<close>, where a character of the pattern
  matches the characters with the same lower case.
\<close>

definition same_char :: "char \<Rightarrow> char \<Rightarrow> bool" where
  "same_char c x = (x = c)"

definition same_letter :: "char \<Rightarrow> char \<Rightarrow> bool" where
  "same_letter c x = (lower_char x = lower_char c)"

definition lit :: "string \<Rightarrow> regex" where
  "lit s = seqs (map (\<lambda>c. One (same_char c)) s)"

definition lit_i :: "string \<Rightarrow> regex" where
  "lit_i s = seqs (map (\<lambda>c. One (same_letter c)) s)"

text \<open>The pattern matches at a position.\<close>

definition matches :: "regex \<Rightarrow> pos \<Rightarrow> bool" where
  "matches r q = (rmatch r q \<noteq> [])"

text \<open>
  \<open>pattern.search(s)\<close> as a truth value: the pattern matches at some position of \<open>s\<close>,
  the end included.
\<close>

fun search_from :: "regex \<Rightarrow> char option \<Rightarrow> string \<Rightarrow> bool" where
  "search_from r p [] = matches r (p, [])"
| "search_from r p (c # cs) = (matches r (p, c # cs) \<or> search_from r (Some c) cs)"

definition re_search :: "regex \<Rightarrow> string \<Rightarrow> bool" where
  "re_search r s = search_from r None s"

text \<open>
  Every pattern of the source with a group has the shape \<open>(group)rest\<close>, and is given as
  the pair of the two. \<open>group_at\<close> is the first way to match the group at a position after
  which the rest matches: the text of group 1 in the match Python finds there.
  \<open>re_group\<close> is \<open>m.group(1)\<close> for \<open>m = pattern.search(s)\<close>, and \<open>None\<close> when there is no
  match: the leftmost position with a match decides.
\<close>

definition group_at :: "regex \<times> regex \<Rightarrow> char option \<Rightarrow> string \<Rightarrow> string option" where
  "group_at gr p s =
     (case find (matches (snd gr)) (rmatch (fst gr) (p, s)) of
        None \<Rightarrow> None
      | Some (p', s') \<Rightarrow> Some (take (length s - length s') s))"

fun group_from :: "regex \<times> regex \<Rightarrow> char option \<Rightarrow> string \<Rightarrow> string option" where
  "group_from gr p [] = group_at gr p []"
| "group_from gr p (c # cs) =
     (case group_at gr p (c # cs) of
        Some m \<Rightarrow> Some m
      | None \<Rightarrow> group_from gr (Some c) cs)"

definition re_group :: "regex \<times> regex \<Rightarrow> string \<Rightarrow> string option" where
  "re_group gr s = group_from gr None s"

text \<open>The character classes of the patterns.\<close>

definition space_or_dash :: "char \<Rightarrow> bool" where
  "space_or_dash c = (py_isspace c \<or> c = CHR ''-'')"

definition digit_or_comma :: "char \<Rightarrow> bool" where
  "digit_or_comma c = (py_isdecimal c \<or> c = CHR '','')"

definition digit_or_dot :: "char \<Rightarrow> bool" where
  "digit_or_dot c = (py_isdecimal c \<or> c = CHR ''.'')"

definition upper_AZ :: "char \<Rightarrow> bool" where
  "upper_AZ c = (let n = ord c in 65 \<le> n \<and> n \<le> 90)"

definition letter_or_space :: "char \<Rightarrow> bool" where
  "letter_or_space c =
     (let n = ord c in (65 \<le> n \<and> n \<le> 90) \<or> (97 \<le> n \<and> n \<le> 122) \<or> py_isspace c)"

definition not_comma_newline :: "char \<Rightarrow> bool" where
  "not_comma_newline c = (c \<noteq> CHR '','' \<and> c \<noteq> CHR 0x0A)"

text \<open>
  \<open>_RE_BED = (\d+)[\s-]*(?:bed|licensed\s*bed)\<close>,
  \<open>_RE_BED_DETAIL = (\d+)[\s-]*(?:bed|licensed)\<close>,
  \<open>_RE_UNIT = (\d+)[\s-]*unit\<close> and \<open>_RE_ROOM = (\d+)[\s-]*room\<close>, all with
  \<open>re.IGNORECASE\<close>.
\<close>

definition RE_BED :: "regex \<times> regex" where
  "RE_BED =
     (Plus py_isdecimal,
      Seq (Star space_or_dash)
        (Alt (lit_i ''bed'') (seqs [lit_i ''licensed'', Star py_isspace, lit_i ''bed''])))"

definition RE_BED_DETAIL :: "regex \<times> regex" where
  "RE_BED_DETAIL =
     (Plus py_isdecimal, Seq (Star space_or_dash) (Alt (lit_i ''bed'') (lit_i ''licensed'')))"

definition RE_UNIT :: "regex \<times> regex" where
  "RE_UNIT = (Plus py_isdecimal, Seq (Star space_or_dash) (lit_i ''unit''))"

definition RE_ROOM :: "regex \<times> regex" where
  "RE_ROOM = (Plus py_isdecimal, Seq (Star space_or_dash) (lit_i ''room''))"

text \<open>\<open>_RE_CAP = ([\d.]+)\s*%?\s*cap\<close> with \<open>re.IGNORECASE\<close>.\<close>

definition RE_CAP :: "regex \<times> regex" where
  "RE_CAP =
     (Plus digit_or_dot,
      seqs [Star py_isspace, Opt (same_char (CHR ''%'')), Star py_isspace, lit_i ''cap''])"

text \<open>
  \<open>_RE_PRICE = \$[\d,]+\<close>, \<open>_RE_ADDR_ZIP = ,\s*[A-Z]{2}\s+\d{5}\<close> and
  \<open>_RE_ADDR_STATE = ,\s*[A-Z]{2}\s*$\<close>, case-sensitive.
\<close>

definition RE_PRICE :: regex where
  "RE_PRICE = Seq (lit ''$'') (Plus digit_or_comma)"

definition RE_ADDR_ZIP :: regex where
  "RE_ADDR_ZIP =
     seqs [lit '','', Star py_isspace, One upper_AZ, One upper_AZ, Plus py_isspace,
           One py_isdecimal, One py_isdecimal, One py_isdecimal, One py_isdecimal,
           One py_isdecimal]"

definition RE_ADDR_STATE :: regex where
  "RE_ADDR_STATE = seqs [lit '','', Star py_isspace, One upper_AZ, One upper_AZ, Star py_isspace, Eol]"

text \<open>
  \<open>_RE_SQFT_CHECK = [\d,]+\s*(?:sqft|sq\s*ft|sf)\b\<close> and
  \<open>_RE_SQFT_EXTRACT = ([\d,]+)\s*(?:sqft|sq\s*ft|sf)\<close>, with \<open>re.IGNORECASE\<close>.
\<close>

definition sqft_unit :: regex where
  "sqft_unit =
     Alt (lit_i ''sqft'') (Alt (seqs [lit_i ''sq'', Star py_isspace, lit_i ''ft'']) (lit_i ''sf''))"

definition RE_SQFT_CHECK :: regex where
  "RE_SQFT_CHECK = seqs [Plus digit_or_comma, Star py_isspace, sqft_unit, WordB]"

definition RE_SQFT_EXTRACT :: "regex \<times> regex" where
  "RE_SQFT_EXTRACT = (Plus digit_or_comma, Seq (Star py_isspace) sqft_unit)"

text \<open>
  \<open>_RE_FULL_ADDR = (\d+[^,\n]+,\s*[A-Za-z\s]+,\s*[A-Z]{2}\s+\d{5})\<close>, case-sensitive: the
  group is the whole pattern.
\<close>

definition RE_FULL_ADDR :: "regex \<times> regex" where
  "RE_FULL_ADDR =
     (seqs [Plus py_isdecimal, Plus not_comma_newline, lit '','', Star py_isspace,
            Plus letter_or_space, lit '','', Star py_isspace, One upper_AZ, One upper_AZ,
            Plus py_isspace, One py_isdecimal, One py_isdecimal, One py_isdecimal,
            One py_isdecimal, One py_isdecimal],
      Eps)"

section \<open>Field parser\<close>

text \<open>
  The lines of a block: the text with every middle dot replaced by a newline, split at
  the newlines, each piece stripped, the empty ones left out.
\<close>

definition text_lines :: "string \<Rightarrow> string list" where
  "text_lines text =
     map py_strip
       (filter (\<lambda>l. py_strip l \<noteq> []) (split_on (CHR 0x0A) (replace_char (CHR 0xB7) (CHR 0x0A) text)))"

text \<open>
  The counts and the cap rate, from the whole lower-cased text: the unit count is the
  room count when a room count is found and the unit count is still zero.
\<close>

definition find_beds :: "string \<Rightarrow> int" where
  "find_beds full_text =
     (case re_group RE_BED full_text of Some m \<Rightarrow> py_int m | None \<Rightarrow> 0)"

definition find_units :: "string \<Rightarrow> int" where
  "find_units full_text =
     (let units = (case re_group RE_UNIT full_text of Some m \<Rightarrow> py_int m | None \<Rightarrow> 0)
      in case re_group RE_ROOM full_text of
           Some m \<Rightarrow> if units = 0 then py_int m else units
         | None \<Rightarrow> units)"

definition find_cap_rate :: "string \<Rightarrow> string" where
  "find_cap_rate full_text =
     (case re_group RE_CAP full_text of Some m \<Rightarrow> m @ ''% CAP'' | None \<Rightarrow> [])"

definition SKIP_PHRASES :: "string list" where
  "SKIP_PHRASES =
     [''view details'', ''view property'', ''view listing'', ''view photos'',
      ''save search'', ''sign up'', ''log in'', ''show map'', ''clear filters'',
      ''results per page'', ''save my search'', ''see new listings'',
      ''create alert'', ''get alerts'', ''view om'', ''view flyer'']"

definition type_keywords :: "string list" where
  "type_keywords =
     [''assisted living'', ''senior living'', ''senior housing'',
      ''nursing home'', ''memory care'', ''skilled nursing'',
      ''continuing care'', ''medical care'', ''health care'',
      ''residential care'', ''adult care'', ''group home'']"

definition broker_keywords :: "string list" where
  "broker_keywords =
     [''marcus'', ''millichap'', ''cbre'', ''cushman'', ''jll'',
      ''colliers'', ''newmark'', ''berkadia'', ''ad advisors'',
      ''fish commercial'', ''realty'', ''advisors group'',
      ''capital'', ''brokerage'', ''keller williams'',
      ''coldwell banker'', ''century 21'', ''nai'', ''svn'']"

text \<open>\<open>any(k in ll for k in ks)\<close>.\<close>

definition any_in :: "string list \<Rightarrow> string \<Rightarrow> bool" where
  "any_in ks ll = list_ex (\<lambda>k. py_in k ll) ks"

text \<open>The five variables the loop over the lines fills, each at most once.\<close>

record found =
  f_price :: string
  f_address :: string
  f_sqft :: string
  f_prop_type :: string
  f_broker :: string

text \<open>One turn of the loop over the lines: the \<open>if\<close>/\<open>elif\<close> chain, in its order.\<close>

definition classify_line :: "found \<Rightarrow> string \<Rightarrow> found" where
  "classify_line st line =
     (let ll = py_strip (py_lower line)
      in if any_in SKIP_PHRASES ll then st
         else if re_search RE_PRICE line \<and> f_price st = [] then st\<lparr>f_price := py_strip line\<rparr>
         else if py_in ''price not disclosed'' ll \<and> f_price st = []
           then st\<lparr>f_price := ''Price Not Disclosed''\<rparr>
         else if py_in ''call for'' ll \<and> py_in ''price'' ll \<and> f_price st = []
           then st\<lparr>f_price := ''Call for Price''\<rparr>
         else if py_in ''negotiable'' ll \<and> f_price st = [] then st\<lparr>f_price := ''Negotiable''\<rparr>
         else if re_search RE_ADDR_ZIP line \<and> f_address st = [] then st\<lparr>f_address := py_strip line\<rparr>
         else if re_search RE_ADDR_STATE line \<and> f_address st = []
           then st\<lparr>f_address := py_strip line\<rparr>
         else if re_search RE_SQFT_CHECK ll \<and> f_sqft st = []
           then (case re_group RE_SQFT_EXTRACT ll of
                   Some m \<Rightarrow> st\<lparr>f_sqft := m @ '' SF''\<rparr>
                 | None \<Rightarrow> st)
         else if any_in type_keywords ll \<and> f_prop_type st = [] then st\<lparr>f_prop_type := py_strip line\<rparr>
         else if any_in broker_keywords ll \<and> f_broker st = [] then st\<lparr>f_broker := py_strip line\<rparr>
         else st)"

definition scan_lines :: "string list \<Rightarrow> found" where
  "scan_lines lines =
     foldl classify_line
       \<lparr>f_price = [], f_address = [], f_sqft = [], f_prop_type = [], f_broker = []\<rparr> lines"

text \<open>
  The second pass, run when neither an address nor a property type was found: the first
  line longer than 15 characters, without a dollar sign and without one of six words,
  becomes the property type.
\<close>

definition fallback_type :: "string list \<Rightarrow> found \<Rightarrow> found" where
  "fallback_type lines st =
     (if f_address st = [] \<and> f_prop_type st = []
      then (case find (\<lambda>line.
                    \<not> any_in [''view'', ''save'', ''sign up'', ''show map'', ''clear'', ''results per'']
                        (py_lower line) \<and>
                    length line > 15 \<and> \<not> py_in ''$'' line) lines of
              Some line \<Rightarrow> st\<lparr>f_prop_type := py_strip line\<rparr>
            | None \<Rightarrow> st)
      else st)"

definition parse_listing_text :: "string \<Rightarrow> string \<Rightarrow> string \<Rightarrow> listing option" where
  "parse_listing_text text link st =
     (let lines = text_lines text
      in if lines = [] then None
         else
           let full_text = py_lower text;
               b = find_beds full_text;
               u = find_units full_text;
               cap = find_cap_rate full_text;
               fd = fallback_type lines (scan_lines lines)
           in if f_price fd = [] \<and> b = 0 \<and> u = 0 then None
              else Some
                \<lparr>address = f_address fd, price = f_price fd, beds = b, units = u,
                 sqft = f_sqft fd, property_type = f_prop_type fd, cap_rate = cap,
                 broker_name = f_broker fd, broker_phone = [], broker_email = [],
                 broker_company = [], listing_url = link, state = st\<rparr>)"

section \<open>Detail page text\<close>

text \<open>
  The part of \<open>scrape_detail_page\<close> that reads the page's body text (from \<open>body_lower\<close> to
  the cap rate): it fills the counts, the square footage, the address and the cap rate
  of \<open>info\<close>. The entries for the broker are filled before it, from what the browser
  reports.
\<close>

definition detail_from_body :: "string \<Rightarrow> detail \<Rightarrow> detail" where
  "detail_from_body body_text info =
     (let body_lower = py_lower body_text;
          info = (case re_group RE_BED_DETAIL body_lower of
                    Some m \<Rightarrow> info\<lparr>info_beds := py_int m\<rparr> | None \<Rightarrow> info);
          info = (case re_group RE_UNIT body_lower of
                    Some m \<Rightarrow> info\<lparr>info_units := py_int m\<rparr> | None \<Rightarrow> info);
          info = (if info_units info = 0
                  then (case re_group RE_ROOM body_lower of
                          Some m \<Rightarrow> info\<lparr>info_units := py_int m\<rparr> | None \<Rightarrow> info)
                  else info);
          info = (case re_group RE_SQFT_EXTRACT body_lower of
                    Some m \<Rightarrow> info\<lparr>info_sqft := m @ '' SF''\<rparr> | None \<Rightarrow> info);
          info = (case re_group RE_FULL_ADDR body_text of
                    Some m \<Rightarrow> info\<lparr>info_address := py_strip m\<rparr> | None \<Rightarrow> info);
          info = (case re_group RE_CAP body_lower of
                    Some m \<Rightarrow> info\<lparr>info_cap_rate := m @ ''% CAP''\<rparr> | None \<Rightarrow> info)
      in info)"

text \<open>The dictionary \<open>info\<close> as \<open>scrape_detail_page\<close> creates it.\<close>

definition empty_info :: detail where
  "empty_info =
     \<lparr>info_broker_name = [], info_broker_phone = [], info_broker_email = [],
      info_broker_company = [], info_beds = 0, info_units = 0, info_sqft = [],
      info_address = [], info_cap_rate = [], info_property_type = []\<rparr>"

text \<open>The block of the spec's end-to-end scenario.\<close>

definition sunrise_block :: string where
  "sunrise_block =
     ''Sunrise Senior Living\<newline>120 Bed Assisted Living\<newline>$12,500,000\<newline>456 Main St, Springfield, IL 62704\<newline>Marcus & Millichap''"

text \<open>The listing that block is parsed to, for a given link and state.\<close>

definition sunrise_listing :: "string \<Rightarrow> string \<Rightarrow> listing" where
  "sunrise_listing link st =
     \<lparr>address = ''456 Main St, Springfield, IL 62704'', price = ''$12,500,000'', beds = 120,
      units = 0, sqft = [], property_type = ''Sunrise Senior Living'', cap_rate = [],
      broker_name = ''Marcus & Millichap'', broker_phone = [], broker_email = [],
      broker_company = [], listing_url = link, state = st\<rparr>"

text \<open>
  Two more blocks: one with a number before the word "licensed" and a square footage on
  its price line, and one with a unit count, a room count and a cap rate.
\<close>

definition licensed_block :: string where
  "licensed_block = ''40 licensed staff\<newline>$1,000,000 5,000 sf''"

definition rooms_block :: string where
  "rooms_block = ''Oak Manor\<newline>0 units, 36 rooms\<newline>7.5% cap rate''"

definition rooms_listing :: listing where
  "rooms_listing =
     \<lparr>address = [], price = [], beds = 0, units = 36, sqft = [],
      property_type = ''0 units, 36 rooms'', cap_rate = ''7.5% CAP'', broker_name = [],
      broker_phone = [], broker_email = [], broker_company = [], listing_url = [],
      state = []\<rparr>"

definition licensed_listing :: listing where
  "licensed_listing =
     \<lparr>address = [], price = ''$1,000,000 5,000 sf'', beds = 0, units = 0, sqft = [],
      property_type = ''40 licensed staff'', cap_rate = [], broker_name = [],
      broker_phone = [], broker_email = [], broker_company = [], listing_url = [],
      state = []\<rparr>"

definition licensed_detail :: detail where
  "licensed_detail =
     \<lparr>info_broker_name = [], info_broker_phone = [], info_broker_email = [],
      info_broker_company = [], info_beds = 40, info_units = 0, info_sqft = ''5,000 SF'',
      info_address = [], info_cap_rate = [], info_property_type = []\<rparr>"

section \<open>Region resolution\<close>

text \<open>\<open>_normalize_state_token\<close>: the lower-cased token without every character outside a to z.\<close>

definition ascii_lower :: "char \<Rightarrow> bool" where
  "ascii_lower c = (let n = ord c in 97 \<le> n \<and> n \<le> 122)"

definition normalize_state_token :: "string \<Rightarrow> string" where
  "normalize_state_token s = filter ascii_lower (py_lower s)"

definition US_STATE_CODES :: "(string \<times> string) list" where
  "US_STATE_CODES =
     [(''AL'', ''Alabama''), (''AK'', ''Alaska''), (''AZ'', ''Arizona''), (''AR'', ''Arkansas''),
      (''CA'', ''California''), (''CO'', ''Colorado''), (''CT'', ''Connecticut''),
      (''DE'', ''Delaware''), (''FL'', ''Florida''), (''GA'', ''Georgia''), (''HI'', ''Hawaii''),
      (''ID'', ''Idaho''), (''IL'', ''Illinois''), (''IN'', ''Indiana''), (''IA'', ''Iowa''),
      (''KS'', ''Kansas''), (''KY'', ''Kentucky''), (''LA'', ''Louisiana''), (''ME'', ''Maine''),
      (''MD'', ''Maryland''), (''MA'', ''Massachusetts''), (''MI'', ''Michigan''),
      (''MN'', ''Minnesota''), (''MS'', ''Mississippi''), (''MO'', ''Missouri''),
      (''MT'', ''Montana''), (''NE'', ''Nebraska''), (''NV'', ''Nevada''),
      (''NH'', ''New Hampshire''), (''NJ'', ''New Jersey''), (''NM'', ''New Mexico''),
      (''NY'', ''New York''), (''NC'', ''North Carolina''), (''ND'', ''North Dakota''),
      (''OH'', ''Ohio''), (''OK'', ''Oklahoma''), (''OR'', ''Oregon''), (''PA'', ''Pennsylvania''),
      (''RI'', ''Rhode Island''), (''SC'', ''South Carolina''), (''SD'', ''South Dakota''),
      (''TN'', ''Tennessee''), (''TX'', ''Texas''), (''UT'', ''Utah''), (''VT'', ''Vermont''),
      (''VA'', ''Virginia''), (''WA'', ''Washington''), (''WV'', ''West Virginia''),
      (''WI'', ''Wisconsin''), (''WY'', ''Wyoming''), (''DC'', ''District of Columbia'')]"

text \<open>
  A dictionary with string keys, in insertion order: \<open>d[k] = v\<close> replaces the value of a
  key that is present and appends the pair otherwise; \<open>d.get(k)\<close> is the value of the key,
  if any.
\<close>

fun dict_set :: "string \<Rightarrow> 'v \<Rightarrow> (string \<times> 'v) list \<Rightarrow> (string \<times> 'v) list" where
  "dict_set k v [] = [(k, v)]"
| "dict_set k v ((k', v') # d) = (if k' = k then (k, v) # d else (k', v') # dict_set k v d)"

fun dict_get :: "(string \<times> 'v) list \<Rightarrow> string \<Rightarrow> 'v option" where
  "dict_get [] k = None"
| "dict_get ((k', v') # d) k = (if k' = k then Some v' else dict_get d k)"

text \<open>
  \<open>_STATE_ALIASES\<close>: for every code and name of the table, in its order, the normalized
  code and the normalized name both map to the code; then the three misspellings.
\<close>

definition add_state :: "(string \<times> string) list \<Rightarrow> string \<times> string \<Rightarrow> (string \<times> string) list" where
  "add_state d cn =
     dict_set (normalize_state_token (snd cn)) (fst cn)
       (dict_set (normalize_state_token (fst cn)) (fst cn) d)"

definition misspellings :: "(string \<times> string) list" where
  "misspellings = [(''Massachusets'', ''MA''), (''Minesota'', ''MN''), (''Okakhoma'', ''OK'')]"

definition STATE_ALIASES :: "(string \<times> string) list" where
  "STATE_ALIASES =
     foldl (\<lambda>d mc. dict_set (normalize_state_token (fst mc)) (snd mc) d)
       (foldl add_state [] US_STATE_CODES) misspellings"

text \<open>\<open>sep.join(xs)\<close>.\<close>

fun py_join :: "string \<Rightarrow> string list \<Rightarrow> string" where
  "py_join sep [] = []"
| "py_join sep [x] = x"
| "py_join sep (x # y # ys) = x @ sep @ py_join sep (y # ys)"

datatype error = ValueError string

text \<open>
  \<open>_expand_states\<close>: the loop fills \<open>codes\<close> (each code once, in the order of its first
  token) and \<open>unknown\<close> (the tokens without an alias, as given); a non-empty \<open>unknown\<close>
  raises \<open>ValueError\<close>, and nothing is returned.
\<close>

fun expand_loop :: "string list \<Rightarrow> string list \<Rightarrow> string list \<Rightarrow> string list \<times> string list" where
  "expand_loop codes unknown [] = (codes, unknown)"
| "expand_loop codes unknown (raw # rest) =
     (let key = normalize_state_token raw
      in case dict_get STATE_ALIASES key of
           None \<Rightarrow> expand_loop codes (unknown @ [raw]) rest
         | Some code \<Rightarrow>
             if code = [] then expand_loop codes (unknown @ [raw]) rest
             else if code \<notin> set codes then expand_loop (codes @ [code]) unknown rest
             else expand_loop codes unknown rest)"

definition unknown_message :: "string list \<Rightarrow> string" where
  "unknown_message unknown =
     ''Unknown state(s): '' @ py_join '', '' unknown @
     ''. Use a 2-letter code (e.g., '' @ [CHR 0x27] @ ''PA'' @ [CHR 0x27] @
     '') or full state name (e.g., '' @ [CHR 0x27] @ ''Pennsylvania'' @ [CHR 0x27] @ '').''"

definition expand_states :: "string list \<Rightarrow> error + string list" where
  "expand_states states_input =
     (case expand_loop [] [] states_input of
        (codes, unknown) \<Rightarrow>
          if unknown \<noteq> [] then Inl (ValueError (unknown_message unknown)) else Inr codes)"

text \<open>The code a single token resolves to, if any.\<close>

definition resolve :: "string \<Rightarrow> string option" where
  "resolve raw = dict_get STATE_ALIASES (normalize_state_token raw)"

text \<open>The list \<open>STATES_INPUT\<close> of the source.\<close>

definition STATES_INPUT :: "string list" where
  "STATES_INPUT =
     [''Alabama'', ''Arkansas'', ''Arizona'', ''California'', ''COlorado'', ''Idaho'',
      ''Illinois'', ''Maryland'', ''Massachusets'', ''Michigan'', ''Minesota'', ''Montana'',
      ''Nebraska'', ''Nevada'', ''New Hampshire'', ''NOrth Carolina'', ''Ohio'', ''Okakhoma'',
      ''Oregon'', ''PA'', ''RI'', ''SC'', ''TN'', ''TX'', ''UT'', ''VT'', ''Wisconsin'', ''WY'']"

text \<open>
  The value of \<open>_STATE_ALIASES\<close> written out, as the construction above computes it
  (lemma \<open>STATE_ALIASES_table\<close>).
\<close>

definition alias_table :: "(string \<times> string) list" where
  "alias_table =
     [(''al'', ''AL''), (''alabama'', ''AL''), (''ak'', ''AK''), (''alaska'', ''AK''),
      (''az'', ''AZ''), (''arizona'', ''AZ''), (''ar'', ''AR''), (''arkansas'', ''AR''),
      (''ca'', ''CA''), (''california'', ''CA''), (''co'', ''CO''), (''colorado'', ''CO''),
      (''ct'', ''CT''), (''connecticut'', ''CT''), (''de'', ''DE''),
      (''delaware'', ''DE''), (''fl'', ''FL''), (''florida'', ''FL''), (''ga'', ''GA''),
      (''georgia'', ''GA''), (''hi'', ''HI''), (''hawaii'', ''HI''), (''id'', ''ID''),
      (''idaho'', ''ID''), (''il'', ''IL''), (''illinois'', ''IL''), (''in'', ''IN''),
      (''indiana'', ''IN''), (''ia'', ''IA''), (''iowa'', ''IA''), (''ks'', ''KS''),
      (''kansas'', ''KS''), (''ky'', ''KY''), (''kentucky'', ''KY''), (''la'', ''LA''),
      (''louisiana'', ''LA''), (''me'', ''ME''), (''maine'', ''ME''), (''md'', ''MD''),
      (''maryland'', ''MD''), (''ma'', ''MA''), (''massachusetts'', ''MA''),
      (''mi'', ''MI''), (''michigan'', ''MI''), (''mn'', ''MN''), (''minnesota'', ''MN''),
      (''ms'', ''MS''), (''mississippi'', ''MS''), (''mo'', ''MO''),
      (''missouri'', ''MO''), (''mt'', ''MT''), (''montana'', ''MT''), (''ne'', ''NE''),
      (''nebraska'', ''NE''), (''nv'', ''NV''), (''nevada'', ''NV''), (''nh'', ''NH''),
      (''newhampshire'', ''NH''), (''nj'', ''NJ''), (''newjersey'', ''NJ''),
      (''nm'', ''NM''), (''newmexico'', ''NM''), (''ny'', ''NY''), (''newyork'', ''NY''),
      (''nc'', ''NC''), (''northcarolina'', ''NC''), (''nd'', ''ND''),
      (''northdakota'', ''ND''), (''oh'', ''OH''), (''ohio'', ''OH''), (''ok'', ''OK''),
      (''oklahoma'', ''OK''), (''or'', ''OR''), (''oregon'', ''OR''), (''pa'', ''PA''),
      (''pennsylvania'', ''PA''), (''ri'', ''RI''), (''rhodeisland'', ''RI''),
      (''sc'', ''SC''), (''southcarolina'', ''SC''), (''sd'', ''SD''),
      (''southdakota'', ''SD''), (''tn'', ''TN''), (''tennessee'', ''TN''),
      (''tx'', ''TX''), (''texas'', ''TX''), (''ut'', ''UT''), (''utah'', ''UT''),
      (''vt'', ''VT''), (''vermont'', ''VT''), (''va'', ''VA''), (''virginia'', ''VA''),
      (''wa'', ''WA''), (''washington'', ''WA''), (''wv'', ''WV''),
      (''westvirginia'', ''WV''), (''wi'', ''WI''), (''wisconsin'', ''WI''),
      (''wy'', ''WY''), (''wyoming'', ''WY''), (''dc'', ''DC''),
      (''districtofcolumbia'', ''DC''), (''massachusets'', ''MA''), (''minesota'', ''MN''),
      (''okakhoma'', ''OK'')]"

text \<open>
  A listing with every entry set but the broker's email, among them the phone number of
  the spec's example, and a detail that differs from it in every entry.
\<close>

definition phone_listing :: listing where
  "phone_listing =
     \<lparr>address = ''1 Elm St, Troy, NY'', price = ''$1,000,000'', beds = 60, units = 45,
      sqft = ''9,000 SF'', property_type = ''Senior Living'', cap_rate = ''7% CAP'',
      broker_name = ''Ann Lee'', broker_phone = ''999-9999'', broker_email = [],
      broker_company = ''CBRE'', listing_url = ''https://www.loopnet.com/Listing/1'',
      state = ''NY''\<rparr>"

definition phone_detail :: detail where
  "phone_detail =
     \<lparr>info_broker_name = ''Bob Ray'', info_broker_phone = ''555-1234'',
      info_broker_email = ''a@b.co'', info_broker_company = ''JLL'', info_beds = 10,
      info_units = 20, info_sqft = ''5 SF'', info_address = ''2 Oak St, Troy, NY 12180'',
      info_cap_rate = ''9% CAP'', info_property_type = ''Nursing Home''\<rparr>"

section \<open>Properties of the size filter\<close>

lemma final_loop_filter:
  "final_loop acc ls =
     acc @ filter (\<lambda>l. \<not> (beds l > 0 \<and> beds l < MIN_BEDS \<and> units l > 0 \<and> units l < MIN_UNITS)) ls"
  by (induction ls arbitrary: acc) (simp_all add: Let_def)

lemma meets_criteria_not_both_low:
  "meets_criteria l \<Longrightarrow>
     \<not> (beds l > 0 \<and> beds l < MIN_BEDS \<and> units l > 0 \<and> units l < MIN_UNITS)"
  by (auto simp: meets_criteria_def Let_def split: if_splits)

lemma set_size_filter:
  "set (size_filter ls) =
     {l \<in> set ls. meets_criteria l \<and>
        \<not> (beds l > 0 \<and> beds l < MIN_BEDS \<and> units l > 0 \<and> units l < MIN_UNITS)}"
  by (auto simp: size_filter_def final_loop_filter)

text \<open>
  Claim C1. With the thresholds 50 and 40, a listing with both counts zero passes
  \<open>meets_criteria\<close>; any other listing passes it exactly when its bed count is at least 50
  or its unit count at least 40; and a listing whose counts are both nonzero and both
  under their thresholds is not in the final list. The final list holds exactly the
  collected listings that pass \<open>meets_criteria\<close> and are not skipped by the second loop.
\<close>

theorem size_filter_rule:
  "MIN_BEDS = 50 \<and> MIN_UNITS = 40 \<and>
   (beds l = 0 \<and> units l = 0 \<longrightarrow> meets_criteria l) \<and>
   (\<not> (beds l = 0 \<and> units l = 0) \<longrightarrow>
      meets_criteria l = (beds l \<ge> MIN_BEDS \<or> units l \<ge> MIN_UNITS)) \<and>
   (beds l \<noteq> 0 \<and> units l \<noteq> 0 \<and> beds l < MIN_BEDS \<and> units l < MIN_UNITS \<longrightarrow>
      l \<notin> set (size_filter ls)) \<and>
   (l \<in> set (size_filter ls) \<longleftrightarrow>
      l \<in> set ls \<and> meets_criteria l \<and>
      \<not> (beds l > 0 \<and> beds l < MIN_BEDS \<and> units l > 0 \<and> units l < MIN_UNITS))"
proof -
  have thresholds: "MIN_BEDS = 50 \<and> MIN_UNITS = 40"
    by (simp add: MIN_BEDS_def MIN_UNITS_def)
  have zero: "beds l = 0 \<and> units l = 0 \<longrightarrow> meets_criteria l"
    by (simp add: meets_criteria_def)
  have primary: "\<not> (beds l = 0 \<and> units l = 0) \<longrightarrow>
      meets_criteria l = (beds l \<ge> MIN_BEDS \<or> units l \<ge> MIN_UNITS)"
    by (auto simp: meets_criteria_def Let_def)
  have member: "l \<in> set (size_filter ls) \<longleftrightarrow>
      l \<in> set ls \<and> meets_criteria l \<and>
      \<not> (beds l > 0 \<and> beds l < MIN_BEDS \<and> units l > 0 \<and> units l < MIN_UNITS)"
    by (simp add: set_size_filter)
  have excluded: "beds l \<noteq> 0 \<and> units l \<noteq> 0 \<and> beds l < MIN_BEDS \<and> units l < MIN_UNITS \<longrightarrow>
      l \<notin> set (size_filter ls)"
  proof
    assume low: "beds l \<noteq> 0 \<and> units l \<noteq> 0 \<and> beds l < MIN_BEDS \<and> units l < MIN_UNITS"
    then have "\<not> meets_criteria l"
      by (auto simp: meets_criteria_def Let_def)
    then show "l \<notin> set (size_filter ls)"
      by (simp add: set_size_filter)
  qed
  from thresholds zero primary excluded member show ?thesis
    by blast
qed

theorem size_filter_rule_witness:
  "meets_criteria (sized_listing 0 0) \<and>
   meets_criteria (sized_listing 120 0) \<and>
   \<not> meets_criteria (sized_listing 10 10) \<and>
   sized_listing 10 10 \<notin> set (size_filter [sized_listing 0 0, sized_listing 10 10])"
proof -
  have zero: "beds (sized_listing 0 0) = 0 \<and> units (sized_listing 0 0) = 0"
    by (simp add: sized_listing_def)
  have big: "\<not> (beds (sized_listing 120 0) = 0 \<and> units (sized_listing 120 0) = 0)"
    "beds (sized_listing 120 0) \<ge> MIN_BEDS"
    by (simp_all add: sized_listing_def MIN_BEDS_def)
  have low: "beds (sized_listing 10 10) \<noteq> 0 \<and> units (sized_listing 10 10) \<noteq> 0 \<and>
      beds (sized_listing 10 10) < MIN_BEDS \<and> units (sized_listing 10 10) < MIN_UNITS"
    by (simp add: sized_listing_def MIN_BEDS_def MIN_UNITS_def)
  have c1: "meets_criteria (sized_listing 0 0)"
    using size_filter_rule [of "sized_listing 0 0" "[]"] zero by blast
  have c2: "meets_criteria (sized_listing 120 0)"
    using size_filter_rule [of "sized_listing 120 0" "[]"] big by blast
  have c3: "\<not> meets_criteria (sized_listing 10 10)"
    using size_filter_rule [of "sized_listing 10 10" "[]"] low by force
  have c4: "sized_listing 10 10 \<notin> set (size_filter [sized_listing 0 0, sized_listing 10 10])"
    using size_filter_rule [of "sized_listing 10 10" "[sized_listing 0 0, sized_listing 10 10]"] low
    by blast
  from c1 c2 c3 c4 show ?thesis by blast
qed

text \<open>
  Claim C9. The second loop of the size filter never removes anything: the final list is
  the list of the listings that pass \<open>meets_criteria\<close>, and no listing that passes it has
  both counts positive and both under their thresholds.
\<close>

theorem secondary_exclusion_redundant:
  "size_filter ls = filter meets_criteria ls \<and>
   (meets_criteria l \<longrightarrow>
      \<not> (beds l > 0 \<and> beds l < MIN_BEDS \<and> units l > 0 \<and> units l < MIN_UNITS))"
proof
  have "filter (\<lambda>l. \<not> (beds l > 0 \<and> beds l < MIN_BEDS \<and> units l > 0 \<and> units l < MIN_UNITS))
          (filter meets_criteria ls) = filter meets_criteria ls"
    by (rule filter_True) (simp add: meets_criteria_not_both_low)
  then show "size_filter ls = filter meets_criteria ls"
    by (simp add: size_filter_def final_loop_filter)
next
  show "meets_criteria l \<longrightarrow>
      \<not> (beds l > 0 \<and> beds l < MIN_BEDS \<and> units l > 0 \<and> units l < MIN_UNITS)"
    using meets_criteria_not_both_low by blast
qed

theorem secondary_exclusion_redundant_witness:
  "meets_criteria (sized_listing 10 60) \<and>
   \<not> (beds (sized_listing 10 60) > 0 \<and> beds (sized_listing 10 60) < MIN_BEDS \<and>
      units (sized_listing 10 60) > 0 \<and> units (sized_listing 10 60) < MIN_UNITS) \<and>
   size_filter [sized_listing 10 60, sized_listing 10 10, sized_listing 0 0] =
     [sized_listing 10 60, sized_listing 0 0]"
  using secondary_exclusion_redundant
    [of "[sized_listing 10 60, sized_listing 10 10, sized_listing 0 0]" "sized_listing 10 60"]
  by (simp add: sized_listing_def meets_criteria_def MIN_BEDS_def MIN_UNITS_def)

section \<open>Properties of the enrichment\<close>

lemma fill_str_keeps: "cur \<noteq> [] \<Longrightarrow> fill_str cur new = cur"
  by (simp add: fill_str_def)

lemma fill_int_keeps: "cur \<noteq> 0 \<Longrightarrow> fill_int cur new = cur"
  by (simp add: fill_int_def)

lemma apply_detail_untouched:
  "price (apply_detail lst d) = price lst"
  "listing_url (apply_detail lst d) = listing_url lst"
  "state (apply_detail lst d) = state lst"
  by (simp_all add: apply_detail_def)

lemma apply_detail_fields:
  "broker_name (apply_detail lst d) = fill_str (broker_name lst) (info_broker_name d)"
  "broker_phone (apply_detail lst d) = fill_str (broker_phone lst) (info_broker_phone d)"
  "broker_email (apply_detail lst d) = fill_str (broker_email lst) (info_broker_email d)"
  "broker_company (apply_detail lst d) = fill_str (broker_company lst) (info_broker_company d)"
  "beds (apply_detail lst d) = fill_int (beds lst) (info_beds d)"
  "units (apply_detail lst d) = fill_int (units lst) (info_units d)"
  "sqft (apply_detail lst d) = fill_str (sqft lst) (info_sqft d)"
  "address (apply_detail lst d) = fill_str (address lst) (info_address d)"
  "cap_rate (apply_detail lst d) = fill_str (cap_rate lst) (info_cap_rate d)"
  "property_type (apply_detail lst d) = fill_str (property_type lst) (info_property_type d)"
  by (simp_all add: apply_detail_def)

text \<open>
  Claim C2. Whatever \<open>scrape_detail_page\<close> returned, the enrichment of a listing leaves
  every field that held a non-empty string or a nonzero count exactly as it was; a field
  whose value differs afterwards was empty (or zero) before. The price, the URL and the
  state are never written.
\<close>

theorem enrichment_never_overwrites:
  "(address lst \<noteq> [] \<longrightarrow> address (enrich_one lst d) = address lst) \<and>
   (beds lst \<noteq> 0 \<longrightarrow> beds (enrich_one lst d) = beds lst) \<and>
   (units lst \<noteq> 0 \<longrightarrow> units (enrich_one lst d) = units lst) \<and>
   (sqft lst \<noteq> [] \<longrightarrow> sqft (enrich_one lst d) = sqft lst) \<and>
   (property_type lst \<noteq> [] \<longrightarrow> property_type (enrich_one lst d) = property_type lst) \<and>
   (cap_rate lst \<noteq> [] \<longrightarrow> cap_rate (enrich_one lst d) = cap_rate lst) \<and>
   (broker_name lst \<noteq> [] \<longrightarrow> broker_name (enrich_one lst d) = broker_name lst) \<and>
   (broker_phone lst \<noteq> [] \<longrightarrow> broker_phone (enrich_one lst d) = broker_phone lst) \<and>
   (broker_email lst \<noteq> [] \<longrightarrow> broker_email (enrich_one lst d) = broker_email lst) \<and>
   (broker_company lst \<noteq> [] \<longrightarrow> broker_company (enrich_one lst d) = broker_company lst) \<and>
   price (enrich_one lst d) = price lst \<and>
   listing_url (enrich_one lst d) = listing_url lst \<and>
   state (enrich_one lst d) = state lst"
  by (simp add: enrich_one_def apply_detail_fields apply_detail_untouched
      fill_str_keeps fill_int_keeps)

theorem enrichment_never_overwrites_witness:
  "address phone_listing \<noteq> [] \<and> beds phone_listing \<noteq> 0 \<and> units phone_listing \<noteq> 0 \<and>
   sqft phone_listing \<noteq> [] \<and> property_type phone_listing \<noteq> [] \<and>
   cap_rate phone_listing \<noteq> [] \<and> broker_name phone_listing \<noteq> [] \<and>
   broker_phone phone_listing \<noteq> [] \<and> broker_company phone_listing \<noteq> [] \<and>
   address (enrich_one phone_listing phone_detail) = ''1 Elm St, Troy, NY'' \<and>
   beds (enrich_one phone_listing phone_detail) = 60 \<and>
   units (enrich_one phone_listing phone_detail) = 45 \<and>
   sqft (enrich_one phone_listing phone_detail) = ''9,000 SF'' \<and>
   property_type (enrich_one phone_listing phone_detail) = ''Senior Living'' \<and>
   cap_rate (enrich_one phone_listing phone_detail) = ''7% CAP'' \<and>
   broker_name (enrich_one phone_listing phone_detail) = ''Ann Lee'' \<and>
   broker_phone (enrich_one phone_listing phone_detail) = ''999-9999'' \<and>
   broker_company (enrich_one phone_listing phone_detail) = ''CBRE'' \<and>
   broker_email (enrich_one phone_listing phone_detail) = ''a@b.co''"
proof -
  have before: "address phone_listing = ''1 Elm St, Troy, NY''" "beds phone_listing = 60"
    "units phone_listing = 45" "sqft phone_listing = ''9,000 SF''"
    "property_type phone_listing = ''Senior Living''" "cap_rate phone_listing = ''7% CAP''"
    "broker_name phone_listing = ''Ann Lee''" "broker_phone phone_listing = ''999-9999''"
    "broker_company phone_listing = ''CBRE''"
    by (simp_all add: phone_listing_def)
  have email: "broker_email (enrich_one phone_listing phone_detail) = ''a@b.co''"
    by (simp add: enrich_one_def apply_detail_fields fill_str_def phone_listing_def
        phone_detail_def)
  from enrichment_never_overwrites [of phone_listing phone_detail] before email
  show ?thesis by simp
qed

section \<open>Properties of the two duplicate filters\<close>

lemma keep_unseen_snoc:
  "keep_unseen key seen (xs @ [y]) =
     keep_unseen key seen xs @
       (if key y \<noteq> [] \<and> key y \<notin> seen \<and> key y \<notin> key ` set xs then [y] else [])"
  by (induction xs arbitrary: seen) auto

lemma keep_unseen_keys:
  "x \<in> set (keep_unseen key seen xs) \<Longrightarrow> key x \<noteq> [] \<and> key x \<notin> seen"
  by (induction xs arbitrary: seen) (auto split: if_splits)

lemma keep_unseen_distinct: "distinct (map key (keep_unseen key seen xs))"
proof (induction xs arbitrary: seen)
  case Nil
  show ?case by simp
next
  case (Cons x xs)
  have "key x \<notin> key ` set (keep_unseen key (insert (key x) seen) xs)"
  proof
    assume "key x \<in> key ` set (keep_unseen key (insert (key x) seen) xs)"
    then obtain y where y: "y \<in> set (keep_unseen key (insert (key x) seen) xs)" "key y = key x"
      by auto
    from keep_unseen_keys [OF y(1)] y(2) show False by simp
  qed
  with Cons.IH show ?case by simp
qed

lemma dedupe_loop_keep_unseen:
  "dedupe_loop seen out ls = out @ keep_unseen natural_key seen ls"
  by (induction ls arbitrary: seen out) (simp_all add: Let_def)

lemma unique_loop_keep_unseen:
  "unique_loop seen out ls = out @ keep_unseen page_key seen ls"
  by (induction ls arbitrary: seen out) (simp_all add: Let_def)

lemma dedupe_keep_unseen: "dedupe ls = keep_unseen natural_key {} ls"
  by (simp add: dedupe_def dedupe_loop_keep_unseen)

lemma unique_listings_keep_unseen: "unique_listings ls = keep_unseen page_key {} ls"
  by (simp add: unique_listings_def unique_loop_keep_unseen)

lemma py_lower_empty: "py_lower s = [] \<longleftrightarrow> s = []"
  by (simp add: py_lower_def)

text \<open>
  Claim C3. The natural key of a listing is its URL when that is not empty, else its
  address stripped and lower-cased when that is not empty, else its price. \<open>dedupe\<close> walks
  the listings in order: nothing is kept of the empty list, and the last listing of a
  list is kept, behind what is kept of the listings before it, exactly when it has a
  natural key (one of the three is not empty) that no listing before it has. So the
  first listing of each natural key is kept, every later one with that key is dropped,
  and the order is the order of discovery; the keys of the kept listings are pairwise
  different.
\<close>

theorem dedupe_first_per_key:
  "natural_key r =
     (if listing_url r \<noteq> [] then listing_url r
      else if py_lower (py_strip (address r)) \<noteq> [] then py_lower (py_strip (address r))
      else price r) \<and>
   dedupe [] = [] \<and>
   dedupe (ls @ [r]) =
     dedupe ls @ (if natural_key r \<noteq> [] \<and> natural_key r \<notin> natural_key ` set ls then [r] else []) \<and>
   distinct (map natural_key (dedupe ls))"
proof -
  have key: "natural_key r =
     (if listing_url r \<noteq> [] then listing_url r
      else if py_lower (py_strip (address r)) \<noteq> [] then py_lower (py_strip (address r))
      else price r)"
    by (simp add: natural_key_def py_or_def)
  have nil: "dedupe [] = []"
    by (simp add: dedupe_keep_unseen)
  have snoc: "dedupe (ls @ [r]) =
     dedupe ls @ (if natural_key r \<noteq> [] \<and> natural_key r \<notin> natural_key ` set ls then [r] else [])"
    unfolding dedupe_keep_unseen by (simp only: keep_unseen_snoc) simp
  have dist: "distinct (map natural_key (dedupe ls))"
    by (simp add: dedupe_keep_unseen keep_unseen_distinct)
  from key nil snoc dist show ?thesis by blast
qed

theorem dedupe_first_per_key_witness:
  "natural_key (keyed_listing [] ''  12 Elm St, Troy, NY '' ''$1'') = ''12 elm st, troy, ny'' \<and>
   dedupe [keyed_listing ''https://x/1'' [] [], keyed_listing [] ''12 ELM ST, Troy, NY'' []] =
     [keyed_listing ''https://x/1'' [] [], keyed_listing [] ''12 ELM ST, Troy, NY'' []] \<and>
   dedupe ([keyed_listing ''https://x/1'' [] [], keyed_listing [] ''12 ELM ST, Troy, NY'' []] @
           [keyed_listing [] ''  12 Elm St, Troy, NY '' ''$1'']) =
     [keyed_listing ''https://x/1'' [] [], keyed_listing [] ''12 ELM ST, Troy, NY'' []]"
proof -
  have k1: "natural_key (keyed_listing ''https://x/1'' [] []) = ''https://x/1''"
    by code_simp
  have k2: "natural_key (keyed_listing [] ''12 ELM ST, Troy, NY'' []) = ''12 elm st, troy, ny''"
    by code_simp
  have k3: "natural_key (keyed_listing [] ''  12 Elm St, Troy, NY '' ''$1'') = ''12 elm st, troy, ny''"
    by code_simp
  have two: "dedupe [keyed_listing ''https://x/1'' [] [], keyed_listing [] ''12 ELM ST, Troy, NY'' []] =
     [keyed_listing ''https://x/1'' [] [], keyed_listing [] ''12 ELM ST, Troy, NY'' []]"
    using dedupe_first_per_key [of "keyed_listing ''https://x/1'' [] []" "[]"]
      dedupe_first_per_key [of "keyed_listing [] ''12 ELM ST, Troy, NY'' []"
        "[keyed_listing ''https://x/1'' [] []]"]
    by (simp add: k1 k2)
  have three: "dedupe ([keyed_listing ''https://x/1'' [] [], keyed_listing [] ''12 ELM ST, Troy, NY'' []] @
           [keyed_listing [] ''  12 Elm St, Troy, NY '' ''$1'']) =
     [keyed_listing ''https://x/1'' [] [], keyed_listing [] ''12 ELM ST, Troy, NY'' []]"
    using dedupe_first_per_key [of "keyed_listing [] ''  12 Elm St, Troy, NY '' ''$1''"
        "[keyed_listing ''https://x/1'' [] [], keyed_listing [] ''12 ELM ST, Troy, NY'' []]"]
    by (simp add: k1 k2 k3 two)
  from k3 two three show ?thesis by blast
qed

text \<open>
  Claim C10. A listing whose URL is empty, whose address is empty once stripped and
  whose price is empty has an empty key, and \<open>dedupe\<close> never keeps it, whatever else is in
  the list: such a listing is dropped, not kept as the first of its key.
\<close>

theorem dedupe_drops_empty_key:
  "listing_url r = [] \<Longrightarrow> py_strip (address r) = [] \<Longrightarrow> price r = [] \<Longrightarrow>
     r \<notin> set (dedupe ls)"
proof
  assume empty: "listing_url r = []" "py_strip (address r) = []" "price r = []"
  assume "r \<in> set (dedupe ls)"
  then have "natural_key r \<noteq> []"
    using keep_unseen_keys [of r natural_key "{}" ls] by (simp add: dedupe_keep_unseen)
  with empty show False
    by (simp add: natural_key_def py_or_def py_lower_def)
qed

theorem dedupe_drops_empty_key_witness:
  "listing_url (keyed_listing [] ''  '' []) = [] \<and>
   py_strip (address (keyed_listing [] ''  '' [])) = [] \<and>
   price (keyed_listing [] ''  '' []) = [] \<and>
   beds (keyed_listing [] ''  '' []) = 60 \<and>
   keyed_listing [] ''  '' [] \<notin> set (dedupe [keyed_listing [] ''  '' []]) \<and>
   dedupe [keyed_listing [] ''  '' []] = []"
proof -
  have u: "listing_url (keyed_listing [] ''  '' []) = []"
    by (simp add: keyed_listing_def)
  have a: "py_strip (address (keyed_listing [] ''  '' [])) = []"
    by code_simp
  have p: "price (keyed_listing [] ''  '' []) = []"
    by (simp add: keyed_listing_def)
  have b: "beds (keyed_listing [] ''  '' []) = 60"
    by (simp add: keyed_listing_def sized_listing_def)
  have out: "keyed_listing [] ''  '' [] \<notin> set (dedupe [keyed_listing [] ''  '' []])"
    using dedupe_drops_empty_key [OF u a p] .
  have "natural_key (keyed_listing [] ''  '' []) = []"
    using u a p by (simp add: natural_key_def py_or_def py_lower_def)
  then have nil: "dedupe [keyed_listing [] ''  '' []] = []"
    by (simp add: dedupe_keep_unseen)
  from u a p b out nil show ?thesis by blast
qed

text \<open>
  Claim C7, as the code has it. The last loop of \<open>scrape_search_page\<close> uses a key of its
  own: the URL when that is not empty, else the address as parsed; it neither
  lower-cases the address nor falls back to the price. In discovery order it keeps a
  listing exactly when that key is not empty and no listing before it on the page has
  it, so the keys of the kept listings are pairwise different.
\<close>

theorem unique_listings_first_per_page_key:
  "page_key r = (if listing_url r \<noteq> [] then listing_url r else address r) \<and>
   unique_listings [] = [] \<and>
   unique_listings (ls @ [r]) =
     unique_listings ls @ (if page_key r \<noteq> [] \<and> page_key r \<notin> page_key ` set ls then [r] else []) \<and>
   distinct (map page_key (unique_listings ls))"
proof -
  have key: "page_key r = (if listing_url r \<noteq> [] then listing_url r else address r)"
    by (simp add: page_key_def py_or_def)
  have nil: "unique_listings [] = []"
    by (simp add: unique_listings_keep_unseen)
  have snoc: "unique_listings (ls @ [r]) =
     unique_listings ls @ (if page_key r \<noteq> [] \<and> page_key r \<notin> page_key ` set ls then [r] else [])"
    unfolding unique_listings_keep_unseen by (simp only: keep_unseen_snoc) simp
  have dist: "distinct (map page_key (unique_listings ls))"
    by (simp add: unique_listings_keep_unseen keep_unseen_distinct)
  from key nil snoc dist show ?thesis by blast
qed

theorem unique_listings_first_per_page_key_witness:
  "page_key (keyed_listing [] ''12 Elm St, Troy, NY'' ''$1'') = ''12 Elm St, Troy, NY'' \<and>
   unique_listings ([keyed_listing [] ''12 Elm St, Troy, NY'' ''$1''] @
                    [keyed_listing [] ''12 Elm St, Troy, NY'' ''$2'']) =
     [keyed_listing [] ''12 Elm St, Troy, NY'' ''$1'']"
proof -
  have k1: "page_key (keyed_listing [] ''12 Elm St, Troy, NY'' ''$1'') = ''12 Elm St, Troy, NY''"
    by (simp add: page_key_def py_or_def keyed_listing_def)
  have k2: "page_key (keyed_listing [] ''12 Elm St, Troy, NY'' ''$2'') = ''12 Elm St, Troy, NY''"
    by (simp add: page_key_def py_or_def keyed_listing_def)
  have one: "unique_listings [keyed_listing [] ''12 Elm St, Troy, NY'' ''$1''] =
     [keyed_listing [] ''12 Elm St, Troy, NY'' ''$1'']"
    using unique_listings_first_per_page_key [of "keyed_listing [] ''12 Elm St, Troy, NY'' ''$1''" "[]"]
    by (simp add: k1)
  have two: "unique_listings ([keyed_listing [] ''12 Elm St, Troy, NY'' ''$1''] @
                    [keyed_listing [] ''12 Elm St, Troy, NY'' ''$2'']) =
     [keyed_listing [] ''12 Elm St, Troy, NY'' ''$1'']"
    using unique_listings_first_per_page_key [of "keyed_listing [] ''12 Elm St, Troy, NY'' ''$2''"
        "[keyed_listing [] ''12 Elm St, Troy, NY'' ''$1'']"]
    by (simp add: k1 k2 one)
  from k1 two show ?thesis by blast
qed

text \<open>
  Claim C7, as the spec states it, fails on two inputs. A listing that has only a price
  has a natural key (the price) and is the first listing of that key on its page, yet
  the page loop drops it. And two listings without URL whose addresses differ only in
  letter case have the same natural key, yet the page loop keeps both.
\<close>

theorem unique_listings_not_natural_key:
  "natural_key (keyed_listing [] [] ''$1,000'') = ''$1,000'' \<and>
   unique_listings [keyed_listing [] [] ''$1,000''] = [] \<and>
   natural_key (keyed_listing [] ''12 Elm St, Troy, NY'' []) =
     natural_key (keyed_listing [] ''12 ELM ST, Troy, NY'' []) \<and>
   unique_listings [keyed_listing [] ''12 Elm St, Troy, NY'' [], keyed_listing [] ''12 ELM ST, Troy, NY'' []] =
     [keyed_listing [] ''12 Elm St, Troy, NY'' [], keyed_listing [] ''12 ELM ST, Troy, NY'' []]"
proof -
  have a: "natural_key (keyed_listing [] [] ''$1,000'') = ''$1,000''"
    by code_simp
  have b: "unique_listings [keyed_listing [] [] ''$1,000''] = []"
    by (simp add: unique_listings_def page_key_def py_or_def keyed_listing_def)
  have c1: "natural_key (keyed_listing [] ''12 Elm St, Troy, NY'' []) = ''12 elm st, troy, ny''"
    by code_simp
  have c2: "natural_key (keyed_listing [] ''12 ELM ST, Troy, NY'' []) = ''12 elm st, troy, ny''"
    by code_simp
  have d: "unique_listings [keyed_listing [] ''12 Elm St, Troy, NY'' [], keyed_listing [] ''12 ELM ST, Troy, NY'' []] =
     [keyed_listing [] ''12 Elm St, Troy, NY'' [], keyed_listing [] ''12 ELM ST, Troy, NY'' []]"
    by (simp add: unique_listings_def page_key_def py_or_def keyed_listing_def)
  from a b c1 c2 d show ?thesis by simp
qed

section \<open>Properties of the pattern library\<close>

text \<open>What a greedy repetition consumed is a run of characters of its class.\<close>

lemma star_greedy_consumed:
  "(p', s') \<in> set (star_greedy cls p s) \<Longrightarrow> \<exists>k. s = k @ s' \<and> (\<forall>x\<in>set k. cls x)"
proof (induction s arbitrary: p)
  case Nil
  then show ?case by simp
next
  case (Cons c cs)
  from Cons.prems consider
    (more) "cls c" "(p', s') \<in> set (star_greedy cls (Some c) cs)"
    | (stop) "s' = c # cs"
    by (auto split: if_splits)
  then show ?case
  proof cases
    case more
    from Cons.IH [OF more(2)] obtain k where "cs = k @ s'" "\<forall>x\<in>set k. cls x"
      by blast
    with more(1) have "c # cs = (c # k) @ s' \<and> (\<forall>x\<in>set (c # k). cls x)"
      by simp
    then show ?thesis by blast
  next
    case stop
    then have "c # cs = [] @ s' \<and> (\<forall>x\<in>set []. cls x)"
      by simp
    then show ?thesis by blast
  qed
qed

lemma rmatch_Plus_consumed:
  assumes "(p', s') \<in> set (rmatch (Plus cls) (p, s))"
  shows "\<exists>k. k \<noteq> [] \<and> s = k @ s' \<and> (\<forall>x\<in>set k. cls x)"
proof (cases s)
  case Nil
  with assms show ?thesis by (simp add: Plus_def)
next
  case (Cons c cs)
  with assms have c: "cls c" and rest: "(p', s') \<in> set (star_greedy cls (Some c) cs)"
    by (auto simp: Plus_def split: if_splits)
  from star_greedy_consumed [OF rest] obtain k where "cs = k @ s'" "\<forall>x\<in>set k. cls x"
    by blast
  with c Cons have "c # k \<noteq> [] \<and> s = (c # k) @ s' \<and> (\<forall>x\<in>set (c # k). cls x)"
    by simp
  then show ?thesis by blast
qed

lemma group_at_Plus:
  assumes "group_at (Plus cls, r) p s = Some m"
  shows "m \<noteq> [] \<and> (\<forall>x\<in>set m. cls x)"
proof -
  from assms obtain p' s' where
    f: "find (matches r) (rmatch (Plus cls) (p, s)) = Some (p', s')"
    and m: "m = take (length s - length s') s"
    by (auto simp: group_at_def split: option.splits)
  from f have "(p', s') \<in> set (rmatch (Plus cls) (p, s))"
    by (auto simp: find_Some_iff)
  from rmatch_Plus_consumed [OF this] obtain k where
    k: "k \<noteq> []" "s = k @ s'" "\<forall>x\<in>set k. cls x"
    by blast
  from m k(2) have "m = k" by simp
  with k show ?thesis by simp
qed

lemma group_from_Plus:
  "group_from (Plus cls, r) p s = Some m \<Longrightarrow> m \<noteq> [] \<and> (\<forall>x\<in>set m. cls x)"
proof (induction s arbitrary: p)
  case Nil
  then show ?case using group_at_Plus [of cls r p "[]" m] by simp
next
  case (Cons c cs)
  show ?case
  proof (cases "group_at (Plus cls, r) p (c # cs)")
    case None
    with Cons.prems have "group_from (Plus cls, r) (Some c) cs = Some m" by simp
    then show ?thesis by (rule Cons.IH)
  next
    case (Some m')
    with Cons.prems have "m' = m" by simp
    with Some show ?thesis using group_at_Plus [of cls r p "c # cs" m] by simp
  qed
qed

lemma py_int_digits_nonneg:
  assumes "\<forall>x\<in>set m. py_isdecimal x"
  shows "0 \<le> py_int m"
proof -
  have "0 \<le> n \<Longrightarrow> \<forall>x\<in>set m. py_isdecimal x \<Longrightarrow>
      0 \<le> foldl (\<lambda>n c. 10 * n + (int (ord c) - 48)) n m" for n
  proof (induction m arbitrary: n)
    case Nil
    then show ?case by simp
  next
    case (Cons c cs)
    from Cons.prems have "48 \<le> ord c"
      by (simp add: py_isdecimal_def Let_def)
    with Cons.prems(1) have "0 \<le> 10 * n + (int (ord c) - 48)"
      by simp
    with Cons.IH Cons.prems(2) show ?case by simp
  qed
  with assms show ?thesis by (simp add: py_int_def)
qed

lemma re_group_digits_nonneg:
  "re_group (Plus py_isdecimal, r) s = Some m \<Longrightarrow> 0 \<le> py_int m"
  using group_from_Plus [of py_isdecimal r None s m] py_int_digits_nonneg [of m]
  by (simp add: re_group_def)

lemma find_beds_nonneg: "0 \<le> find_beds t"
  using re_group_digits_nonneg
  by (auto simp: find_beds_def RE_BED_def split: option.splits)

lemma find_units_nonneg: "0 \<le> find_units t"
  using re_group_digits_nonneg
  by (auto simp: find_units_def RE_UNIT_def RE_ROOM_def Let_def split: option.splits)

section \<open>Properties of the field parser\<close>

lemma fallback_type_price: "f_price (fallback_type lines fd) = f_price fd"
  by (simp add: fallback_type_def split: option.splits)

lemma parse_listing_text_Some:
  assumes "parse_listing_text text link st = Some r"
  shows "text_lines text \<noteq> []"
    and "price r = f_price (scan_lines (text_lines text))"
    and "beds r = find_beds (py_lower text)"
    and "units r = find_units (py_lower text)"
    and "cap_rate r = find_cap_rate (py_lower text)"
    and "\<not> (price r = [] \<and> beds r = 0 \<and> units r = 0)"
  using assms
  by (auto simp: parse_listing_text_def Let_def fallback_type_price split: if_splits)

text \<open>
  Claim C4. When the loop over the lines of a block found no price and the bed count and
  the unit count read from the block are both zero, \<open>parse_listing_text\<close> returns no
  listing. So every listing it returns has a non-empty price, a positive bed count or a
  positive unit count.
\<close>

theorem parser_rejection_rule:
  "(f_price (scan_lines (text_lines text)) = [] \<and> find_beds (py_lower text) = 0 \<and>
      find_units (py_lower text) = 0 \<longrightarrow> parse_listing_text text link st = None) \<and>
   (parse_listing_text text link st = Some r \<longrightarrow> price r \<noteq> [] \<or> beds r > 0 \<or> units r > 0)"
proof
  show "f_price (scan_lines (text_lines text)) = [] \<and> find_beds (py_lower text) = 0 \<and>
      find_units (py_lower text) = 0 \<longrightarrow> parse_listing_text text link st = None"
    by (simp add: parse_listing_text_def Let_def fallback_type_price)
next
  show "parse_listing_text text link st = Some r \<longrightarrow> price r \<noteq> [] \<or> beds r > 0 \<or> units r > 0"
  proof
    assume some: "parse_listing_text text link st = Some r"
    from parse_listing_text_Some(3,4) [OF some] have "0 \<le> beds r" "0 \<le> units r"
      by (simp_all add: find_beds_nonneg find_units_nonneg)
    with parse_listing_text_Some(6) [OF some]
    show "price r \<noteq> [] \<or> beds r > 0 \<or> units r > 0"
      by force
  qed
qed

lemma rooms_parse: "parse_listing_text rooms_block [] [] = Some rooms_listing"
  by code_simp

theorem parser_rejection_rule_witness:
  "f_price (scan_lines (text_lines ''Sign up for alerts'')) = [] \<and>
   find_beds (py_lower ''Sign up for alerts'') = 0 \<and>
   find_units (py_lower ''Sign up for alerts'') = 0 \<and>
   parse_listing_text ''Sign up for alerts'' ''u'' ''IL'' = None \<and>
   parse_listing_text rooms_block [] [] = Some rooms_listing \<and>
   0 < units rooms_listing"
proof -
  have p: "f_price (scan_lines (text_lines ''Sign up for alerts'')) = []"
    by code_simp
  have b: "find_beds (py_lower ''Sign up for alerts'') = 0"
    by code_simp
  have u: "find_units (py_lower ''Sign up for alerts'') = 0"
    by code_simp
  have none: "parse_listing_text ''Sign up for alerts'' ''u'' ''IL'' = None"
    using parser_rejection_rule [of "''Sign up for alerts''" "''u''" "''IL''"] p b u by blast
  have "price rooms_listing \<noteq> [] \<or> beds rooms_listing > 0 \<or> units rooms_listing > 0"
    using parser_rejection_rule [of rooms_block "[]" "[]" rooms_listing] rooms_parse by blast
  moreover have "price rooms_listing = []" "beds rooms_listing = 0"
    by (simp_all add: rooms_listing_def)
  ultimately have pos: "0 < units rooms_listing" by simp
  from p b u none rooms_parse pos show ?thesis by simp
qed

lemma sunrise_lines:
  "text_lines sunrise_block =
     [''Sunrise Senior Living'', ''120 Bed Assisted Living'', ''$12,500,000'',
      ''456 Main St, Springfield, IL 62704'', ''Marcus & Millichap'']"
  by code_simp

lemma sunrise_scan:
  "scan_lines
     [''Sunrise Senior Living'', ''120 Bed Assisted Living'', ''$12,500,000'',
      ''456 Main St, Springfield, IL 62704'', ''Marcus & Millichap''] =
   \<lparr>f_price = ''$12,500,000'', f_address = ''456 Main St, Springfield, IL 62704'',
    f_sqft = [], f_prop_type = ''Sunrise Senior Living'', f_broker = ''Marcus & Millichap''\<rparr>"
  by code_simp

lemma sunrise_counts:
  "find_beds (py_lower sunrise_block) = 120"
  "find_units (py_lower sunrise_block) = 0"
  "find_cap_rate (py_lower sunrise_block) = []"
  by code_simp+

lemma sunrise_parse:
  "parse_listing_text sunrise_block link st = Some (sunrise_listing link st)"
  by (simp add: parse_listing_text_def Let_def sunrise_lines sunrise_scan sunrise_counts
      fallback_type_def sunrise_listing_def)

text \<open>
  Claim C5, as the code has it. Whatever the link and the state, the block of the
  scenario is parsed to a listing whose property type is the first line, "Sunrise
  Senior Living", with the price "$12,500,000", the address "456 Main St, Springfield,
  IL 62704" and 120 beds. The line "Marcus & Millichap" is stored as the broker name;
  the parser leaves the broker company empty.
\<close>

theorem sunrise_scenario:
  "\<exists>r. parse_listing_text sunrise_block link st = Some r \<and>
     property_type r = ''Sunrise Senior Living'' \<and>
     price r = ''$12,500,000'' \<and>
     address r = ''456 Main St, Springfield, IL 62704'' \<and>
     beds r = 120 \<and>
     broker_name r = ''Marcus & Millichap'' \<and>
     broker_company r = [] \<and>
     listing_url r = link \<and> state r = st"
  by (simp add: sunrise_parse sunrise_listing_def)

theorem sunrise_scenario_witness:
  "\<exists>r. parse_listing_text sunrise_block ''https://www.loopnet.com/Listing/1'' ''IL'' = Some r \<and>
     beds r = 120 \<and> broker_name r = ''Marcus & Millichap'' \<and> state r = ''IL''"
  using sunrise_scenario [of "''https://www.loopnet.com/Listing/1''" "''IL''"]
  by auto

text \<open>
  Claim C5, as the spec states it, fails on the broker: no listing parsed from the block
  has "Marcus & Millichap" as its broker company.
\<close>

theorem sunrise_broker_company_empty:
  "\<not> (\<exists>r. parse_listing_text sunrise_block [] [] = Some r \<and>
          broker_company r = ''Marcus & Millichap'')"
  by (simp add: sunrise_parse sunrise_listing_def)

section \<open>The two parsing paths\<close>

lemma rmatch_Seq_nonempty:
  "rmatch (Seq a b) q \<noteq> [] \<longleftrightarrow> (\<exists>q'\<in>set (rmatch a q). rmatch b q' \<noteq> [])"
  by auto

lemma rmatch_Seq_first: "rmatch (Seq a b) q \<noteq> [] \<Longrightarrow> rmatch a q \<noteq> []"
  by auto

lemma bed_rest_weaker:
  assumes "rmatch (snd RE_BED) q \<noteq> []"
  shows "rmatch (snd RE_BED_DETAIL) q \<noteq> []"
proof -
  from assms obtain q' where q': "q' \<in> set (rmatch (Star space_or_dash) q)"
    and alt: "rmatch (Alt (lit_i ''bed'')
        (seqs [lit_i ''licensed'', Star py_isspace, lit_i ''bed''])) q' \<noteq> []"
    unfolding RE_BED_def snd_conv rmatch_Seq_nonempty by blast
  from alt have "rmatch (lit_i ''bed'') q' \<noteq> [] \<or>
      rmatch (Seq (lit_i ''licensed'') (seqs [Star py_isspace, lit_i ''bed''])) q' \<noteq> []"
    by simp
  then have "rmatch (lit_i ''bed'') q' \<noteq> [] \<or> rmatch (lit_i ''licensed'') q' \<noteq> []"
    using rmatch_Seq_first by blast
  then have "rmatch (Alt (lit_i ''bed'') (lit_i ''licensed'')) q' \<noteq> []"
    by simp
  with q' show ?thesis
    unfolding RE_BED_DETAIL_def snd_conv rmatch_Seq_nonempty by blast
qed

lemma find_found: "find P xs \<noteq> None \<longleftrightarrow> (\<exists>x\<in>set xs. P x)"
  by (induction xs) auto

lemma group_at_found:
  "group_at gr p s \<noteq> None \<longleftrightarrow> (\<exists>q\<in>set (rmatch (fst gr) (p, s)). rmatch (snd gr) q \<noteq> [])"
proof -
  have "group_at gr p s \<noteq> None \<longleftrightarrow>
      find (matches (snd gr)) (rmatch (fst gr) (p, s)) \<noteq> None"
    by (simp add: group_at_def split: option.splits prod.splits)
  then show ?thesis by (simp only: find_found matches_def)
qed

lemma group_at_weaker:
  assumes "fst gr' = fst gr"
    and "\<And>q. rmatch (snd gr) q \<noteq> [] \<Longrightarrow> rmatch (snd gr') q \<noteq> []"
    and "group_at gr p s \<noteq> None"
  shows "group_at gr' p s \<noteq> None"
  using assms unfolding group_at_found by metis

lemma group_from_weaker:
  assumes g: "fst gr' = fst gr"
    and w: "\<And>q. rmatch (snd gr) q \<noteq> [] \<Longrightarrow> rmatch (snd gr') q \<noteq> []"
  shows "group_from gr p s \<noteq> None \<Longrightarrow> group_from gr' p s \<noteq> None"
proof (induction s arbitrary: p)
  case Nil
  then have "group_at gr p [] \<noteq> None" by simp
  from group_at_weaker [OF g w this] show ?case by simp
next
  case (Cons c cs)
  show ?case
  proof (cases "group_at gr p (c # cs)")
    case None
    with Cons.prems have "group_from gr (Some c) cs \<noteq> None" by simp
    from Cons.IH [OF this] show ?thesis
      by (simp split: option.splits)
  next
    case (Some m)
    then have "group_at gr p (c # cs) \<noteq> None" by simp
    from group_at_weaker [OF g w this] show ?thesis
      by (auto split: option.splits)
  qed
qed

lemma bed_detail_matches:
  assumes "re_group RE_BED s \<noteq> None"
  shows "re_group RE_BED_DETAIL s \<noteq> None"
proof -
  have g: "fst RE_BED_DETAIL = fst RE_BED"
    by (simp add: RE_BED_def RE_BED_DETAIL_def)
  from assms have "group_from RE_BED None s \<noteq> None"
    by (simp add: re_group_def)
  from group_from_weaker [OF g bed_rest_weaker this] show ?thesis
    by (simp add: re_group_def)
qed

lemma detail_from_body_units:
  "info_units info = 0 \<Longrightarrow> info_units (detail_from_body t info) = find_units (py_lower t)"
  by (simp add: detail_from_body_def find_units_def Let_def split: option.splits)

lemma detail_from_body_cap_rate:
  "info_cap_rate info = [] \<Longrightarrow>
     info_cap_rate (detail_from_body t info) = find_cap_rate (py_lower t)"
  by (simp add: detail_from_body_def find_cap_rate_def Let_def split: option.splits)

text \<open>
  Claim C6, as the code has it. On the same text, the detail page's reading and the
  field parser agree on the unit count, with its fall-back to the room count, and on the
  cap rate: both apply \<open>_RE_UNIT\<close>, \<open>_RE_ROOM\<close> and \<open>_RE_CAP\<close> to the lower-cased text,
  starting from a unit count of zero and an empty cap rate. For the bed count the detail
  page has a pattern of its own, \<open>_RE_BED_DETAIL\<close>, which matches wherever the parser's
  \<open>_RE_BED\<close> does (and elsewhere too).
\<close>

theorem detail_agrees_on_units_and_cap_rate:
  assumes "parse_listing_text text link st = Some r"
    and "info_units info = 0" and "info_cap_rate info = []"
  shows "units r = info_units (detail_from_body text info) \<and>
     cap_rate r = info_cap_rate (detail_from_body text info) \<and>
     (re_group RE_BED (py_lower text) \<noteq> None \<longrightarrow>
        re_group RE_BED_DETAIL (py_lower text) \<noteq> None)"
  using assms parse_listing_text_Some(4,5) [OF assms(1)] bed_detail_matches
  by (simp add: detail_from_body_units detail_from_body_cap_rate)

theorem detail_agrees_on_units_and_cap_rate_witness:
  "parse_listing_text rooms_block [] [] = Some rooms_listing \<and>
   info_units empty_info = 0 \<and> info_cap_rate empty_info = [] \<and>
   units rooms_listing = info_units (detail_from_body rooms_block empty_info) \<and>
   cap_rate rooms_listing = info_cap_rate (detail_from_body rooms_block empty_info) \<and>
   units rooms_listing = 36 \<and> cap_rate rooms_listing = ''7.5% CAP'' \<and>
   parse_listing_text sunrise_block [] [] = Some (sunrise_listing [] []) \<and>
   re_group RE_BED (py_lower sunrise_block) \<noteq> None \<and>
   re_group RE_BED_DETAIL (py_lower sunrise_block) \<noteq> None"
proof -
  have i: "info_units empty_info = 0" "info_cap_rate empty_info = []"
    by (simp_all add: empty_info_def)
  from detail_agrees_on_units_and_cap_rate [OF rooms_parse i]
  have eq: "units rooms_listing = info_units (detail_from_body rooms_block empty_info)"
    "cap_rate rooms_listing = info_cap_rate (detail_from_body rooms_block empty_info)"
    by simp_all
  have v: "units rooms_listing = 36" "cap_rate rooms_listing = ''7.5% CAP''"
    by (simp_all add: rooms_listing_def)
  have bed: "re_group RE_BED (py_lower sunrise_block) \<noteq> None"
    using sunrise_counts(1) by (auto simp: find_beds_def split: option.splits)
  with detail_agrees_on_units_and_cap_rate [OF sunrise_parse i]
  have bed_detail: "re_group RE_BED_DETAIL (py_lower sunrise_block) \<noteq> None"
    by blast
  from rooms_parse i eq v sunrise_parse bed bed_detail show ?thesis by simp
qed

lemma licensed_parse: "parse_listing_text licensed_block [] [] = Some licensed_listing"
  by code_simp

lemma licensed_detail_from_body: "detail_from_body licensed_block empty_info = licensed_detail"
  by code_simp

text \<open>
  Claim C6, as the spec states it, fails on the bed count and on the square footage. In
  the block "40 licensed staff / $1,000,000 5,000 sf" the parser finds no bed count and
  no square footage (the line that holds it is taken as the price), while the detail
  page's reading of the same text finds 40 beds and 5,000 SF.
\<close>

theorem detail_differs_on_beds_and_sqft:
  "parse_listing_text licensed_block [] [] = Some licensed_listing \<and>
   beds licensed_listing = 0 \<and>
   info_beds (detail_from_body licensed_block empty_info) = 40 \<and>
   sqft licensed_listing = [] \<and>
   info_sqft (detail_from_body licensed_block empty_info) = ''5,000 SF''"
  by (simp add: licensed_parse licensed_detail_from_body licensed_listing_def licensed_detail_def)

section \<open>Properties of the region resolution\<close>

lemma STATE_ALIASES_table: "STATE_ALIASES = alias_table"
  by code_simp

lemma dict_get_member: "dict_get d k = Some v \<Longrightarrow> (k, v) \<in> set d"
  by (induction d) (auto split: if_splits)

lemma alias_codes_not_empty: "list_all (\<lambda>kv. snd kv \<noteq> []) alias_table"
  unfolding alias_table_def by simp

lemma resolve_not_empty: "resolve raw = Some code \<Longrightarrow> code \<noteq> []"
proof -
  assume "resolve raw = Some code"
  then have "(normalize_state_token raw, code) \<in> set alias_table"
    by (simp add: resolve_def STATE_ALIASES_table dict_get_member)
  with alias_codes_not_empty show "code \<noteq> []"
    by (auto simp: list_all_iff)
qed

lemma resolve_table: "resolve raw = dict_get alias_table (normalize_state_token raw)"
  by (simp add: resolve_def STATE_ALIASES_table)

lemma table_codes_and_names:
  "list_all (\<lambda>cn. length (fst cn) = 2 \<and>
      dict_get alias_table (normalize_state_token (fst cn)) = Some (fst cn) \<and>
      dict_get alias_table (normalize_state_token (snd cn)) = Some (fst cn)) US_STATE_CODES"
  by code_simp

lemma table_misspellings:
  "list_all (\<lambda>mc. dict_get alias_table (normalize_state_token (fst mc)) = Some (snd mc)) misspellings"
  by code_simp

text \<open>What the loop of \<open>_expand_states\<close> returns, from any starting lists.\<close>

lemma expand_loop_step:
  "expand_loop codes unknown (raw # rest) =
     (case resolve raw of
        None \<Rightarrow> expand_loop codes (unknown @ [raw]) rest
      | Some code \<Rightarrow>
          if code \<notin> set codes then expand_loop (codes @ [code]) unknown rest
          else expand_loop codes unknown rest)"
proof (cases "resolve raw")
  case None
  then show ?thesis by (simp add: resolve_def)
next
  case (Some code)
  with resolve_not_empty have "code \<noteq> []" by blast
  with Some show ?thesis by (simp add: resolve_def)
qed

lemma expand_loop_unknown:
  "snd (expand_loop codes unknown input) = unknown @ filter (\<lambda>raw. resolve raw = None) input"
proof (induction input arbitrary: codes unknown)
  case Nil
  show ?case by simp
next
  case (Cons raw rest)
  show ?case
    unfolding expand_loop_step by (cases "resolve raw") (simp_all add: Cons.IH)
qed

lemma expand_loop_codes:
  "set (fst (expand_loop codes unknown input)) =
     set codes \<union> {c. \<exists>raw\<in>set input. resolve raw = Some c}"
proof (induction input arbitrary: codes unknown)
  case Nil
  show ?case by simp
next
  case (Cons raw rest)
  show ?case
    unfolding expand_loop_step by (cases "resolve raw") (auto simp: Cons.IH)
qed

lemma expand_loop_distinct:
  "distinct codes \<Longrightarrow> distinct (fst (expand_loop codes unknown input))"
proof (induction input arbitrary: codes unknown)
  case Nil
  then show ?case by simp
next
  case (Cons raw rest)
  then show ?case
    unfolding expand_loop_step by (cases "resolve raw") simp_all
qed

lemma expand_states_cases:
  "expand_states input =
     (if filter (\<lambda>raw. resolve raw = None) input \<noteq> []
      then Inl (ValueError (unknown_message (filter (\<lambda>raw. resolve raw = None) input)))
      else Inr (fst (expand_loop [] [] input)))"
proof -
  obtain codes unknown where loop: "expand_loop [] [] input = (codes, unknown)"
    by (cases "expand_loop [] [] input")
  with expand_loop_unknown [of "[]" "[]" input]
  have "unknown = filter (\<lambda>raw. resolve raw = None) input"
    by simp
  with loop show ?thesis
    by (simp add: expand_states_def)
qed

text \<open>
  Claim C8. A token whose normal form (lower case, letters a to z only) is that of a
  code or of a name of the state table resolves to that code, which has two letters; a
  token whose normal form is that of one of the three declared misspellings resolves to
  the code declared for it. When some token of the input has no alias,
  \<open>_expand_states\<close> raises the error whose message lists the tokens without alias, as
  given and in their order, and returns no list. Otherwise it returns a list without
  repetition that holds exactly the codes its tokens resolve to.
\<close>

theorem region_resolution:
  "((code, name) \<in> set US_STATE_CODES \<longrightarrow>
      length code = 2 \<and>
      (normalize_state_token raw = normalize_state_token code \<or>
       normalize_state_token raw = normalize_state_token name \<longrightarrow> resolve raw = Some code)) \<and>
   ((wrong, code') \<in> set misspellings \<longrightarrow>
      (normalize_state_token raw = normalize_state_token wrong \<longrightarrow> resolve raw = Some code')) \<and>
   (filter (\<lambda>raw. resolve raw = None) input \<noteq> [] \<longrightarrow>
      expand_states input =
        Inl (ValueError (unknown_message (filter (\<lambda>raw. resolve raw = None) input)))) \<and>
   (filter (\<lambda>raw. resolve raw = None) input = [] \<longrightarrow>
      (\<exists>codes. expand_states input = Inr codes \<and> distinct codes \<and>
         set codes = {c. \<exists>raw\<in>set input. resolve raw = Some c}))"
proof -
  have table: "(code, name) \<in> set US_STATE_CODES \<longrightarrow>
      length code = 2 \<and>
      (normalize_state_token raw = normalize_state_token code \<or>
       normalize_state_token raw = normalize_state_token name \<longrightarrow> resolve raw = Some code)"
  proof
    assume "(code, name) \<in> set US_STATE_CODES"
    with table_codes_and_names have
      "length code = 2 \<and>
       dict_get alias_table (normalize_state_token code) = Some code \<and>
       dict_get alias_table (normalize_state_token name) = Some code"
      by (auto simp: list_all_iff)
    then show "length code = 2 \<and>
      (normalize_state_token raw = normalize_state_token code \<or>
       normalize_state_token raw = normalize_state_token name \<longrightarrow> resolve raw = Some code)"
      by (auto simp: resolve_table)
  qed
  have wrong: "(wrong, code') \<in> set misspellings \<longrightarrow>
      (normalize_state_token raw = normalize_state_token wrong \<longrightarrow> resolve raw = Some code')"
  proof
    assume "(wrong, code') \<in> set misspellings"
    with table_misspellings have
      "dict_get alias_table (normalize_state_token wrong) = Some code'"
      by (auto simp: list_all_iff)
    then show "normalize_state_token raw = normalize_state_token wrong \<longrightarrow> resolve raw = Some code'"
      by (simp add: resolve_table)
  qed
  have err: "filter (\<lambda>raw. resolve raw = None) input \<noteq> [] \<longrightarrow>
      expand_states input =
        Inl (ValueError (unknown_message (filter (\<lambda>raw. resolve raw = None) input)))"
    by (simp add: expand_states_cases)
  have ok: "filter (\<lambda>raw. resolve raw = None) input = [] \<longrightarrow>
      (\<exists>codes. expand_states input = Inr codes \<and> distinct codes \<and>
         set codes = {c. \<exists>raw\<in>set input. resolve raw = Some c})"
  proof
    assume none: "filter (\<lambda>raw. resolve raw = None) input = []"
    have "expand_states input = Inr (fst (expand_loop [] [] input))"
      using none by (simp add: expand_states_cases)
    moreover have "distinct (fst (expand_loop [] [] input))"
      by (simp add: expand_loop_distinct)
    moreover have "set (fst (expand_loop [] [] input)) =
        {c. \<exists>raw\<in>set input. resolve raw = Some c}"
      by (simp add: expand_loop_codes)
    ultimately show "\<exists>codes. expand_states input = Inr codes \<and> distinct codes \<and>
         set codes = {c. \<exists>raw\<in>set input. resolve raw = Some c}"
      by blast
  qed
  from table wrong err ok show ?thesis by blast
qed

lemma resolve_examples:
  "resolve ''Narnia'' = None" "resolve ''Oz'' = None" "resolve ''pa'' = Some ''PA''"
  unfolding resolve_table by code_simp+

theorem region_resolution_witness:
  "(''PA'', ''Pennsylvania'') \<in> set US_STATE_CODES \<and>
   (''Okakhoma'', ''OK'') \<in> set misspellings \<and>
   resolve ''P.a.'' = Some ''PA'' \<and>
   resolve ''PENNSYLVANIA '' = Some ''PA'' \<and>
   resolve ''oka-khoma'' = Some ''OK'' \<and>
   expand_states [''pa'', ''Narnia'', ''Oz''] =
     Inl (ValueError (unknown_message [''Narnia'', ''Oz''])) \<and>
   (\<exists>codes. expand_states [''pa''] = Inr codes \<and> set codes = {''PA''})"
proof -
  have pa: "(''PA'', ''Pennsylvania'') \<in> set US_STATE_CODES"
    by (simp add: US_STATE_CODES_def)
  have ok: "(''Okakhoma'', ''OK'') \<in> set misspellings"
    by (simp add: misspellings_def)
  have n1: "normalize_state_token ''P.a.'' = normalize_state_token ''PA''"
    by code_simp
  have n2: "normalize_state_token ''PENNSYLVANIA '' = normalize_state_token ''Pennsylvania''"
    by code_simp
  have n3: "normalize_state_token ''oka-khoma'' = normalize_state_token ''Okakhoma''"
    by code_simp
  have r1: "resolve ''P.a.'' = Some ''PA''"
    using region_resolution [of "''PA''" "''Pennsylvania''" "''P.a.''" "''Okakhoma''" "''OK''" "[]"]
      pa n1 by blast
  have r2: "resolve ''PENNSYLVANIA '' = Some ''PA''"
    using region_resolution [of "''PA''" "''Pennsylvania''" "''PENNSYLVANIA ''" "''Okakhoma''" "''OK''" "[]"]
      pa n2 by blast
  have r3: "resolve ''oka-khoma'' = Some ''OK''"
    using region_resolution [of "''PA''" "''Pennsylvania''" "''oka-khoma''" "''Okakhoma''" "''OK''" "[]"]
      ok n3 by blast
  have unknown: "filter (\<lambda>raw. resolve raw = None) [''pa'', ''Narnia'', ''Oz''] = [''Narnia'', ''Oz'']"
    by (simp add: resolve_examples)
  have e: "expand_states [''pa'', ''Narnia'', ''Oz''] =
     Inl (ValueError (unknown_message [''Narnia'', ''Oz'']))"
    using region_resolution [of "''PA''" "''Pennsylvania''" "''pa''" "''Okakhoma''" "''OK''"
        "[''pa'', ''Narnia'', ''Oz'']"] unknown by simp
  have known: "filter (\<lambda>raw. resolve raw = None) [''pa''] = []"
    by (simp add: resolve_examples)
  have s: "\<exists>codes. expand_states [''pa''] = Inr codes \<and> set codes = {''PA''}"
  proof -
    from region_resolution [of "''PA''" "''Pennsylvania''" "''pa''" "''Okakhoma''" "''OK''" "[''pa'']"]
      known
    obtain codes where c: "expand_states [''pa''] = Inr codes"
      "set codes = {c. \<exists>raw\<in>set [''pa'']. resolve raw = Some c}"
      by blast
    from c(2) have "set codes = {''PA''}"
      by (auto simp: resolve_examples)
    with c(1) show ?thesis by blast
  qed
  from pa ok r1 r2 r3 e s show ?thesis by blast
qed

end
